theory Spec2Isabelle
  imports Main "HOL-Library.Monad_Syntax" "HOL-Library.Word"
begin

section \<open>Enumerations (server.py, lines 29--43)\<close>

text \<open>
  \<open>TenderStatus\<close> and \<open>PriorityLevel\<close> are string-valued enumerations. A member is
  looked up by its value, as \<open>TenderStatus(v)\<close> does; a value that belongs to no member
  is refused.
\<close>

datatype TenderStatus =
  OFFER | ROUND_1 | ROUND_2 | ROUND_3 | ROUND_4 | BAFO | CONTRACT_SIGNED | WON | LOST

datatype PriorityLevel = HIGH | MEDIUM | LOW

fun status_value :: "TenderStatus \<Rightarrow> string" where
  "status_value OFFER = ''Offer''"
| "status_value ROUND_1 = ''Round 1''"
| "status_value ROUND_2 = ''Round 2''"
| "status_value ROUND_3 = ''Round 3''"
| "status_value ROUND_4 = ''Round 4''"
| "status_value BAFO = ''BAFO''"
| "status_value CONTRACT_SIGNED = ''Contract Signed''"
| "status_value WON = ''Won''"
| "status_value LOST = ''Lost''"

fun priority_value :: "PriorityLevel \<Rightarrow> string" where
  "priority_value HIGH = ''High''"
| "priority_value MEDIUM = ''Medium''"
| "priority_value LOW = ''Low''"

definition TenderStatus_members :: "TenderStatus list" where
  "TenderStatus_members =
     [OFFER, ROUND_1, ROUND_2, ROUND_3, ROUND_4, BAFO, CONTRACT_SIGNED, WON, LOST]"

definition PriorityLevel_members :: "PriorityLevel list" where
  "PriorityLevel_members = [HIGH, MEDIUM, LOW]"

definition TenderStatus_of :: "string \<Rightarrow> TenderStatus option" where
  "TenderStatus_of s = find (\<lambda>m. status_value m = s) TenderStatus_members"

definition PriorityLevel_of :: "string \<Rightarrow> PriorityLevel option" where
  "PriorityLevel_of s = find (\<lambda>m. priority_value m = s) PriorityLevel_members"

section \<open>Calendar dates and date-times\<close>

text \<open>
  \<open>datetime.date\<close> and \<open>datetime.datetime\<close> of the standard library. A date-time
  extends a date, as the Python class does. \<open>tzinfo\<close> is absent for a naive value and
  otherwise the fixed offset from UTC in minutes (the request parser only produces offsets of
  whole minutes). The constructors refuse out-of-range fields with \<open>ValueError\<close>; the
  predicates \<open>date_ok\<close> and \<open>datetime_ok\<close> say what they accept.
\<close>

record date =
  year :: nat
  month :: nat
  day :: nat

record datetime = date +
  hour :: nat
  minute :: nat
  second :: nat
  microsecond :: nat
  tzinfo :: "int option"

definition is_leap :: "nat \<Rightarrow> bool" where
  "is_leap y = (y mod 4 = 0 \<and> (y mod 100 \<noteq> 0 \<or> y mod 400 = 0))"

definition days_in_month :: "nat \<Rightarrow> nat \<Rightarrow> nat" where
  "days_in_month y m =
     (if m = 2 then (if is_leap y then 29 else 28)
      else if m = 4 \<or> m = 6 \<or> m = 9 \<or> m = 11 then 30 else 31)"

definition ymd_ok :: "nat \<Rightarrow> nat \<Rightarrow> nat \<Rightarrow> bool" where
  "ymd_ok y m d = (1 \<le> y \<and> y \<le> 9999 \<and> 1 \<le> m \<and> m \<le> 12 \<and> 1 \<le> d \<and> d \<le> days_in_month y m)"

definition tz_ok :: "int option \<Rightarrow> bool" where
  "tz_ok tz = (case tz of None \<Rightarrow> True | Some off \<Rightarrow> - 1440 < off \<and> off < 1440)"

definition date_ok :: "date \<Rightarrow> bool" where
  "date_ok d = ymd_ok (year d) (month d) (day d)"

definition datetime_ok :: "datetime \<Rightarrow> bool" where
  "datetime_ok t =
     (ymd_ok (year t) (month t) (day t) \<and> hour t < 24 \<and> minute t < 60 \<and> second t < 60
      \<and> microsecond t < 1000000 \<and> tz_ok (tzinfo t))"

definition date_new :: "nat \<Rightarrow> nat \<Rightarrow> nat \<Rightarrow> date option" where
  "date_new y m d = (if ymd_ok y m d then Some \<lparr>year = y, month = m, day = d\<rparr> else None)"

definition datetime_new ::
  "nat \<Rightarrow> nat \<Rightarrow> nat \<Rightarrow> nat \<Rightarrow> nat \<Rightarrow> nat \<Rightarrow> nat \<Rightarrow> int option \<Rightarrow> datetime option" where
  "datetime_new y m d hh mm ss us tz =
     (if ymd_ok y m d \<and> hh < 24 \<and> mm < 60 \<and> ss < 60 \<and> us < 1000000 \<and> tz_ok tz
      then Some \<lparr>year = y, month = m, day = d, hour = hh, minute = mm, second = ss,
                 microsecond = us, tzinfo = tz\<rparr>
      else None)"

text \<open>\<open>datetime.date()\<close>: the calendar date of a date-time.\<close>

definition date_of :: "datetime \<Rightarrow> date" where
  "date_of t = \<lparr>year = year t, month = month t, day = day t\<rparr>"

subsection \<open>Decimal digits\<close>

definition digit_char :: "nat \<Rightarrow> char" where
  "digit_char n = char_of (48 + n)"

definition digit_val :: "char \<Rightarrow> nat option" where
  "digit_val c =
     (let n = (of_char c :: nat) in if 48 \<le> n \<and> n \<le> 57 then Some (n - 48) else None)"

text \<open>\<open>str(n)\<close> without a sign; the empty string for zero, completed by the padding below.\<close>

fun decimal :: "nat \<Rightarrow> string" where
  "decimal n = (if n = 0 then [] else decimal (n div 10) @ [digit_char (n mod 10)])"

declare decimal.simps [simp del]

text \<open>\<open>'%0kd' % n\<close>: at least \<open>k\<close> digits, zero-padded on the left.\<close>

fun zpad :: "nat \<Rightarrow> nat \<Rightarrow> string" where
  "zpad 0 n = decimal n"
| "zpad (Suc k) n = zpad k (n div 10) @ [digit_char (n mod 10)]"

text \<open>\<open>int(s)\<close> on a string of decimal digits; anything else is a \<open>ValueError\<close>.\<close>

fun digits_acc :: "nat \<Rightarrow> string \<Rightarrow> nat option" where
  "digits_acc a [] = Some a"
| "digits_acc a (c # cs) =
     (case digit_val c of None \<Rightarrow> None | Some d \<Rightarrow> digits_acc (10 * a + d) cs)"

definition int_of_digits :: "string \<Rightarrow> nat option" where
  "int_of_digits s = (if s = [] then None else digits_acc 0 s)"

subsection \<open>isoformat\<close>

definition date_isoformat :: "nat \<Rightarrow> nat \<Rightarrow> nat \<Rightarrow> string" where
  "date_isoformat y m d = zpad 4 y @ ''-'' @ zpad 2 m @ ''-'' @ zpad 2 d"

definition tz_isoformat :: "int option \<Rightarrow> string" where
  "tz_isoformat tz =
     (case tz of
        None \<Rightarrow> []
      | Some off \<Rightarrow>
          (if off < 0 then ''-'' else ''+'')
            @ zpad 2 (nat \<bar>off\<bar> div 60) @ '':'' @ zpad 2 (nat \<bar>off\<bar> mod 60))"

definition time_isoformat :: "nat \<Rightarrow> nat \<Rightarrow> nat \<Rightarrow> nat \<Rightarrow> string" where
  "time_isoformat hh mm ss us =
     zpad 2 hh @ '':'' @ zpad 2 mm @ '':'' @ zpad 2 ss
       @ (if us \<noteq> 0 then ''.'' @ zpad 6 us else [])"

text \<open>\<open>date.isoformat()\<close> gives \<open>YYYY-MM-DD\<close>.\<close>

definition isoformat_date :: "date \<Rightarrow> string" where
  "isoformat_date d = date_isoformat (year d) (month d) (day d)"

text \<open>\<open>datetime.isoformat()\<close> gives \<open>YYYY-MM-DDTHH:MM:SS[.ffffff][+HH:MM]\<close>.\<close>

definition isoformat_datetime :: "datetime \<Rightarrow> string" where
  "isoformat_datetime t =
     date_isoformat (year t) (month t) (day t) @ ''T''
       @ time_isoformat (hour t) (minute t) (second t) (microsecond t)
       @ tz_isoformat (tzinfo t)"

subsection \<open>fromisoformat\<close>

text \<open>
  \<open>datetime.fromisoformat\<close>, for the grammar
  \<open>YYYY-MM-DD[*HH[:MM[:SS[.fff[fff]]]][+HH:MM]]\<close>: the first ten characters are the date,
  the eleventh is any separator, the rest is the time. Every malformed string and every
  out-of-range field is a \<open>ValueError\<close>, here \<open>None\<close>.
\<close>

definition parse_isoformat_date :: "string \<Rightarrow> (nat \<times> nat \<times> nat) option" where
  "parse_isoformat_date dstr =
     (if length dstr \<noteq> 10 \<or> dstr ! 4 \<noteq> CHR ''-'' \<or> dstr ! 7 \<noteq> CHR ''-'' then None
      else do {
        y \<leftarrow> int_of_digits (take 4 dstr);
        m \<leftarrow> int_of_digits (take 2 (drop 5 dstr));
        d \<leftarrow> int_of_digits (take 2 (drop 8 dstr));
        Some (y, m, d)
      })"

text \<open>
  \<open>_parse_hh_mm_ss_ff\<close>: up to three two-digit components separated by colons, then an
  optional fraction of three or six digits.
\<close>

definition parse_fraction :: "string \<Rightarrow> nat option" where
  "parse_fraction r =
     (if r = [] then Some 0
      else if hd r \<noteq> CHR ''.'' then None
      else if length (tl r) = 3 then map_option (\<lambda>n. n * 1000) (int_of_digits (tl r))
      else if length (tl r) = 6 then int_of_digits (tl r)
      else None)"

definition parse_hh_mm_ss_ff :: "string \<Rightarrow> (nat \<times> nat \<times> nat \<times> nat) option" where
  "parse_hh_mm_ss_ff tstr =
     (if length tstr < 2 then None
      else do {
        hh \<leftarrow> int_of_digits (take 2 tstr);
        if length tstr = 2 then Some (hh, 0, 0, 0)
        else if tstr ! 2 \<noteq> CHR '':'' \<or> length tstr < 5 then None
        else do {
          mm \<leftarrow> int_of_digits (take 2 (drop 3 tstr));
          if length tstr = 5 then Some (hh, mm, 0, 0)
          else if tstr ! 5 \<noteq> CHR '':'' \<or> length tstr < 8 then None
          else do {
            ss \<leftarrow> int_of_digits (take 2 (drop 6 tstr));
            us \<leftarrow> parse_fraction (drop 8 tstr);
            Some (hh, mm, ss, us)
          }
        }
      })"

text \<open>\<open>str.find\<close>: the index of the first occurrence of a character.\<close>

fun str_find :: "char \<Rightarrow> string \<Rightarrow> nat option" where
  "str_find c [] = None"
| "str_find c (x # xs) = (if x = c then Some 0 else map_option Suc (str_find c xs))"

text \<open>
  \<open>_parse_isoformat_time\<close>: the offset starts at the first \<open>-\<close>, or else at the first
  \<open>+\<close>; it is \<open>HH:MM\<close>, and the sign applies to the whole offset.
\<close>

definition tz_pos :: "string \<Rightarrow> nat option" where
  "tz_pos tstr =
     (case str_find (CHR ''-'') tstr of Some i \<Rightarrow> Some i | None \<Rightarrow> str_find (CHR ''+'') tstr)"

definition parse_tz :: "char \<Rightarrow> string \<Rightarrow> int option" where
  "parse_tz sign tzstr =
     (if length tzstr \<noteq> 5 then None
      else do {
        (hh, mm, ss, us) \<leftarrow> parse_hh_mm_ss_ff tzstr;
        Some ((if sign = CHR ''-'' then - 1 else 1) * (int hh * 60 + int mm))
      })"

definition parse_isoformat_time :: "string \<Rightarrow> ((nat \<times> nat \<times> nat \<times> nat) \<times> int option) option" where
  "parse_isoformat_time tstr =
     (case tz_pos tstr of
        None \<Rightarrow> do { c \<leftarrow> parse_hh_mm_ss_ff tstr; Some (c, None) }
      | Some i \<Rightarrow> do {
          c \<leftarrow> parse_hh_mm_ss_ff (take i tstr);
          off \<leftarrow> parse_tz (tstr ! i) (drop (Suc i) tstr);
          Some (c, Some off)
        })"

definition fromisoformat :: "string \<Rightarrow> datetime option" where
  "fromisoformat s =
     do {
       (y, m, d) \<leftarrow> parse_isoformat_date (take 10 s);
       ((hh, mm, ss, us), tz) \<leftarrow>
          (if drop 11 s = [] then Some ((0, 0, 0, 0), None) else parse_isoformat_time (drop 11 s));
       datetime_new y m d hh mm ss us tz
     }"

section \<open>Values and documents\<close>

text \<open>
  The values that occur in request bodies and in stored documents of this service: JSON
  null, booleans, numbers, strings, and the date and date-time objects of the handlers. A
  number is carried as the IEEE-754 binary64 pattern of the float it denotes; no handler
  computes with it. A document is a dictionary from field names to values.
\<close>

type_synonym float64 = "64 word"

datatype pyval =
  VNone | VBool bool | VFloat float64 | VStr string | VDate date | VDateTime datetime

type_synonym document = "string \<rightharpoonup> pyval"

datatype error =
  HTTPException nat string
| RequestValidationError
| ValidationError
| ValueError
| AttributeError

text \<open>
  The status the framework answers with: the handlers' own \<open>HTTPException\<close> carries its
  code, a request body that fails validation is answered with 422, and any other exception
  that leaves a handler is a server error.
\<close>

fun status_code :: "error \<Rightarrow> nat" where
  "status_code (HTTPException c _) = c"
| "status_code RequestValidationError = 422"
| "status_code _ = 500"

section \<open>The world of a request\<close>

text \<open>
  What a request reads and writes besides its arguments: the \<open>tenders\<close> collection, the
  identifier generator, the clock, and the validation library. The generator and the clock
  are sequences fixed in advance, of which every call of \<open>uuid.uuid4()\<close> or
  \<open>datetime.utcnow()\<close> takes the next element. Of the validation library the world holds
  the lenient coercions: what a float, date or date-time field makes of an input that is
  neither a value of its type nor the string that \<open>isoformat\<close> writes for one (a numeric
  string or a boolean for a float, a timestamp for a date, another ISO-8601 spelling of a
  date-time). They belong to the installed library, not to this repository, and no
  request changes them.
\<close>

record world =
  tenders :: "document list"
  uuid4_src :: "nat \<Rightarrow> string"
  uuid4_calls :: nat
  utcnow_src :: "nat \<Rightarrow> datetime"
  utcnow_calls :: nat
  lax_float :: "pyval \<Rightarrow> float64 option"
  lax_date :: "pyval \<Rightarrow> date option"
  lax_datetime :: "pyval \<Rightarrow> datetime option"

definition uuid4 :: "world \<Rightarrow> string \<times> world" where
  "uuid4 w = (uuid4_src w (uuid4_calls w), w\<lparr>uuid4_calls := Suc (uuid4_calls w)\<rparr>)"

definition utcnow :: "world \<Rightarrow> datetime \<times> world" where
  "utcnow w = (utcnow_src w (utcnow_calls w), w\<lparr>utcnow_calls := Suc (utcnow_calls w)\<rparr>)"

section \<open>Models (server.py, lines 46--83)\<close>

record Tender =
  id' :: string
  item :: string
  customer :: string
  tender_name :: string
  status :: TenderStatus
  start_date :: date
  expiry_date :: date
  due_date :: datetime
  deal_value :: float64
  priority :: PriorityLevel
  assigned_sales_rep :: string
  created_at :: datetime
  updated_at :: datetime

record TenderCreate =
  item :: string
  customer :: string
  tender_name :: string
  status :: TenderStatus
  start_date :: date
  expiry_date :: date
  due_date :: datetime
  deal_value :: float64
  priority :: PriorityLevel
  assigned_sales_rep :: string

record TenderUpdate =
  item :: "string option"
  customer :: "string option"
  tender_name :: "string option"
  status :: "TenderStatus option"
  start_date :: "date option"
  expiry_date :: "date option"
  due_date :: "datetime option"
  deal_value :: "float64 option"
  priority :: "PriorityLevel option"
  assigned_sales_rep :: "string option"

subsection \<open>Field validators\<close>

text \<open>
  What the validation library does with one field value, by the declared type of the field;
  \<open>None\<close> is the validation error. A value of the declared type is taken as it is. A
  string field takes strings only. An enumeration field looks the member up by its value.
  A date or date-time field takes the string that \<open>isoformat\<close> writes for a date or a
  date-time as that date or date-time. Null is a value of none of these types. Every other
  input of a float, date or date-time field goes to the library's lenient coercion for
  that type.
\<close>

fun str_validator :: "pyval \<Rightarrow> string option" where
  "str_validator (VStr s) = Some s"
| "str_validator _ = None"

fun float_validator :: "world \<Rightarrow> pyval \<Rightarrow> float64 option" where
  "float_validator w (VFloat x) = Some x"
| "float_validator w VNone = None"
| "float_validator w v = lax_float w v"

text \<open>\<open>YYYY-MM-DD\<close>, the form of \<open>date.isoformat()\<close>.\<close>

definition parse_date :: "string \<Rightarrow> date option" where
  "parse_date s = do { (y, m, d) \<leftarrow> parse_isoformat_date s; date_new y m d }"

text \<open>
  \<open>YYYY-MM-DDTHH:MM:SS[.ffffff][+HH:MM]\<close>, the form of \<open>datetime.isoformat()\<close>: a
  string that denotes a date-time and is the one that \<open>isoformat\<close> writes for it.
\<close>

definition parse_datetime :: "string \<Rightarrow> datetime option" where
  "parse_datetime s =
     (case fromisoformat s of
        None \<Rightarrow> None
      | Some t \<Rightarrow> if isoformat_datetime t = s then Some t else None)"

fun date_validator :: "world \<Rightarrow> pyval \<Rightarrow> date option" where
  "date_validator w (VDate d) = Some d"
| "date_validator w VNone = None"
| "date_validator w (VStr s) =
     (case parse_date s of Some d \<Rightarrow> Some d | None \<Rightarrow> lax_date w (VStr s))"
| "date_validator w v = lax_date w v"

fun datetime_validator :: "world \<Rightarrow> pyval \<Rightarrow> datetime option" where
  "datetime_validator w (VDateTime t) = Some t"
| "datetime_validator w VNone = None"
| "datetime_validator w (VStr s) =
     (case parse_datetime s of Some t \<Rightarrow> Some t | None \<Rightarrow> lax_datetime w (VStr s))"
| "datetime_validator w v = lax_datetime w v"

fun status_validator :: "pyval \<Rightarrow> TenderStatus option" where
  "status_validator (VStr s) = TenderStatus_of s"
| "status_validator _ = None"

fun priority_validator :: "pyval \<Rightarrow> PriorityLevel option" where
  "priority_validator (VStr s) = PriorityLevel_of s"
| "priority_validator _ = None"

text \<open>A required field: a missing key is a validation error.\<close>

definition required :: "(pyval \<Rightarrow> 'a option) \<Rightarrow> document \<Rightarrow> string \<Rightarrow> 'a option" where
  "required f d k = (case d k of None \<Rightarrow> None | Some v \<Rightarrow> f v)"

text \<open>A field with a default: the default stands in for a missing key only.\<close>

definition with_default :: "'a \<Rightarrow> (pyval \<Rightarrow> 'a option) \<Rightarrow> document \<Rightarrow> string \<Rightarrow> 'a option" where
  "with_default a f d k = (case d k of None \<Rightarrow> Some a | Some v \<Rightarrow> f v)"

text \<open>An \<open>Optional\<close> field with default \<open>None\<close>: a missing key and a null both give \<open>None\<close>.\<close>

definition optional :: "(pyval \<Rightarrow> 'a option) \<Rightarrow> document \<Rightarrow> string \<Rightarrow> 'a option option" where
  "optional f d k =
     (case d k of None \<Rightarrow> Some None | Some VNone \<Rightarrow> Some None | Some v \<Rightarrow> map_option Some (f v))"

subsection \<open>Request bodies\<close>

text \<open>
  \<open>TenderCreate\<close> and \<open>TenderUpdate\<close> built from a request body. Keys that are not
  fields of the model are ignored.
\<close>

definition TenderCreate_validate :: "world \<Rightarrow> document \<Rightarrow> TenderCreate option" where
  "TenderCreate_validate w b =
     do {
       v_item \<leftarrow> required str_validator b ''item'';
       v_customer \<leftarrow> required str_validator b ''customer'';
       v_tender_name \<leftarrow> required str_validator b ''tender_name'';
       v_status \<leftarrow> with_default OFFER status_validator b ''status'';
       v_start_date \<leftarrow> required (date_validator w) b ''start_date'';
       v_expiry_date \<leftarrow> required (date_validator w) b ''expiry_date'';
       v_due_date \<leftarrow> required (datetime_validator w) b ''due_date'';
       v_deal_value \<leftarrow> required (float_validator w) b ''deal_value'';
       v_priority \<leftarrow> required priority_validator b ''priority'';
       v_assigned_sales_rep \<leftarrow> required str_validator b ''assigned_sales_rep'';
       Some \<lparr>TenderCreate.item = v_item, customer = v_customer, tender_name = v_tender_name,
              status = v_status, start_date = v_start_date, expiry_date = v_expiry_date,
              due_date = v_due_date, deal_value = v_deal_value, priority = v_priority,
              assigned_sales_rep = v_assigned_sales_rep\<rparr>
     }"

definition TenderUpdate_validate :: "world \<Rightarrow> document \<Rightarrow> TenderUpdate option" where
  "TenderUpdate_validate w b =
     do {
       v_item \<leftarrow> optional str_validator b ''item'';
       v_customer \<leftarrow> optional str_validator b ''customer'';
       v_tender_name \<leftarrow> optional str_validator b ''tender_name'';
       v_status \<leftarrow> optional status_validator b ''status'';
       v_start_date \<leftarrow> optional (date_validator w) b ''start_date'';
       v_expiry_date \<leftarrow> optional (date_validator w) b ''expiry_date'';
       v_due_date \<leftarrow> optional (datetime_validator w) b ''due_date'';
       v_deal_value \<leftarrow> optional (float_validator w) b ''deal_value'';
       v_priority \<leftarrow> optional priority_validator b ''priority'';
       v_assigned_sales_rep \<leftarrow> optional str_validator b ''assigned_sales_rep'';
       Some \<lparr>TenderUpdate.item = v_item, customer = v_customer, tender_name = v_tender_name,
              status = v_status, start_date = v_start_date, expiry_date = v_expiry_date,
              due_date = v_due_date, deal_value = v_deal_value, priority = v_priority,
              assigned_sales_rep = v_assigned_sales_rep\<rparr>
     }"

subsection \<open>dict()\<close>

text \<open>
  The dictionary of a model. An enumeration member is a string that equals its value, and
  the store writes it as that string.
\<close>

definition opt :: "('a \<Rightarrow> pyval) \<Rightarrow> 'a option \<Rightarrow> pyval" where
  "opt f x = (case x of None \<Rightarrow> VNone | Some a \<Rightarrow> f a)"

definition TenderCreate_dict :: "TenderCreate \<Rightarrow> document" where
  "TenderCreate_dict p =
     [''item'' \<mapsto> VStr (TenderCreate.item p),
      ''customer'' \<mapsto> VStr (TenderCreate.customer p),
      ''tender_name'' \<mapsto> VStr (TenderCreate.tender_name p),
      ''status'' \<mapsto> VStr (status_value (TenderCreate.status p)),
      ''start_date'' \<mapsto> VDate (TenderCreate.start_date p),
      ''expiry_date'' \<mapsto> VDate (TenderCreate.expiry_date p),
      ''due_date'' \<mapsto> VDateTime (TenderCreate.due_date p),
      ''deal_value'' \<mapsto> VFloat (TenderCreate.deal_value p),
      ''priority'' \<mapsto> VStr (priority_value (TenderCreate.priority p)),
      ''assigned_sales_rep'' \<mapsto> VStr (TenderCreate.assigned_sales_rep p)]"

definition TenderUpdate_dict :: "TenderUpdate \<Rightarrow> document" where
  "TenderUpdate_dict u =
     [''item'' \<mapsto> opt VStr (TenderUpdate.item u),
      ''customer'' \<mapsto> opt VStr (TenderUpdate.customer u),
      ''tender_name'' \<mapsto> opt VStr (TenderUpdate.tender_name u),
      ''status'' \<mapsto> opt (\<lambda>s. VStr (status_value s)) (TenderUpdate.status u),
      ''start_date'' \<mapsto> opt VDate (TenderUpdate.start_date u),
      ''expiry_date'' \<mapsto> opt VDate (TenderUpdate.expiry_date u),
      ''due_date'' \<mapsto> opt VDateTime (TenderUpdate.due_date u),
      ''deal_value'' \<mapsto> opt VFloat (TenderUpdate.deal_value u),
      ''priority'' \<mapsto> opt (\<lambda>p. VStr (priority_value p)) (TenderUpdate.priority u),
      ''assigned_sales_rep'' \<mapsto> opt VStr (TenderUpdate.assigned_sales_rep u)]"

definition Tender_dict :: "Tender \<Rightarrow> document" where
  "Tender_dict t =
     [''id'' \<mapsto> VStr (id' t),
      ''item'' \<mapsto> VStr (Tender.item t),
      ''customer'' \<mapsto> VStr (Tender.customer t),
      ''tender_name'' \<mapsto> VStr (Tender.tender_name t),
      ''status'' \<mapsto> VStr (status_value (Tender.status t)),
      ''start_date'' \<mapsto> VDate (Tender.start_date t),
      ''expiry_date'' \<mapsto> VDate (Tender.expiry_date t),
      ''due_date'' \<mapsto> VDateTime (Tender.due_date t),
      ''deal_value'' \<mapsto> VFloat (Tender.deal_value t),
      ''priority'' \<mapsto> VStr (priority_value (Tender.priority t)),
      ''assigned_sales_rep'' \<mapsto> VStr (Tender.assigned_sales_rep t),
      ''created_at'' \<mapsto> VDateTime (created_at t),
      ''updated_at'' \<mapsto> VDateTime (updated_at t)]"

section \<open>Constructing a record\<close>

text \<open>
  \<open>Tender(**d)\<close>. The fields are taken in the order of their declaration; \<open>id\<close>,
  \<open>created_at\<close> and \<open>updated_at\<close> call their default factory when the key is missing,
  every other field is required, and keys that are not fields are ignored.
\<close>

definition default_factory ::
  "(world \<Rightarrow> 'a \<times> world) \<Rightarrow> (pyval \<Rightarrow> 'a option) \<Rightarrow> document \<Rightarrow> string \<Rightarrow> world
     \<Rightarrow> 'a option \<times> world" where
  "default_factory g f d k w =
     (case d k of None \<Rightarrow> (let (a, w') = g w in (Some a, w')) | Some v \<Rightarrow> (f v, w))"

definition Tender_init :: "world \<Rightarrow> document \<Rightarrow> (error + Tender) \<times> world" where
  "Tender_init w d =
     (let (v_id, w1) = default_factory uuid4 str_validator d ''id'' w;
          (v_created_at, w2) = default_factory utcnow (datetime_validator w) d ''created_at'' w1;
          (v_updated_at, w3) = default_factory utcnow (datetime_validator w) d ''updated_at'' w2;
          r = do {
            v_id \<leftarrow> v_id;
            v_item \<leftarrow> required str_validator d ''item'';
            v_customer \<leftarrow> required str_validator d ''customer'';
            v_tender_name \<leftarrow> required str_validator d ''tender_name'';
            v_status \<leftarrow> required status_validator d ''status'';
            v_start_date \<leftarrow> required (date_validator w) d ''start_date'';
            v_expiry_date \<leftarrow> required (date_validator w) d ''expiry_date'';
            v_due_date \<leftarrow> required (datetime_validator w) d ''due_date'';
            v_deal_value \<leftarrow> required (float_validator w) d ''deal_value'';
            v_priority \<leftarrow> required priority_validator d ''priority'';
            v_assigned_sales_rep \<leftarrow> required str_validator d ''assigned_sales_rep'';
            v_created_at \<leftarrow> v_created_at;
            v_updated_at \<leftarrow> v_updated_at;
            Some \<lparr>id' = v_id, Tender.item = v_item, customer = v_customer,
                   tender_name = v_tender_name, status = v_status, start_date = v_start_date,
                   expiry_date = v_expiry_date, due_date = v_due_date,
                   deal_value = v_deal_value, priority = v_priority,
                   assigned_sales_rep = v_assigned_sales_rep, created_at = v_created_at,
                   updated_at = v_updated_at\<rparr>
          }
      in (case r of None \<Rightarrow> Inl ValidationError | Some t \<Rightarrow> Inr t, w3))"

section \<open>The document collection\<close>

text \<open>
  Modelled from the spec: the document store, an external collaborator whose driver is not
  part of the repository. It provides a collection with find, insert, update, delete and
  distinct operations, queried by field equality. The collection is the list of its
  documents in their natural order, and it returns what was written. A query is a list of
  field-value pairs, all of which a matching document holds. The single-document operations
  act on the first match and report how many documents they touched.
\<close>

type_synonym query = "(string \<times> pyval) list"

definition matches :: "query \<Rightarrow> document \<Rightarrow> bool" where
  "matches q d = list_all (\<lambda>(k, v). d k = Some v) q"

definition find_docs :: "query \<Rightarrow> document list \<Rightarrow> document list" where
  "find_docs q ds = filter (matches q) ds"

definition to_list :: "nat \<Rightarrow> document list \<Rightarrow> document list" where
  "to_list n ds = take n ds"

definition find_one :: "query \<Rightarrow> document list \<Rightarrow> document option" where
  "find_one q ds = find (matches q) ds"

definition insert_one :: "document \<Rightarrow> document list \<Rightarrow> document list" where
  "insert_one d ds = ds @ [d]"

text \<open>\<open>update_one(q, {"$set": u})\<close>: the matched count and the collection afterwards.\<close>

fun update_one :: "query \<Rightarrow> document \<Rightarrow> document list \<Rightarrow> nat \<times> document list" where
  "update_one q u [] = (0, [])"
| "update_one q u (d # ds) =
     (if matches q d then (1, (d ++ u) # ds)
      else (let (n, ds') = update_one q u ds in (n, d # ds')))"

text \<open>\<open>delete_one(q)\<close>: the deleted count and the collection afterwards.\<close>

fun delete_one :: "query \<Rightarrow> document list \<Rightarrow> nat \<times> document list" where
  "delete_one q [] = (0, [])"
| "delete_one q (d # ds) =
     (if matches q d then (1, ds)
      else (let (n, ds') = delete_one q ds in (n, d # ds')))"

section \<open>Request handlers (server.py, lines 90--180)\<close>

text \<open>\<open>d[k] = d[k].isoformat()\<close>; a value without that method raises.\<close>

fun isoformat :: "pyval \<Rightarrow> pyval option" where
  "isoformat (VDate d) = Some (VStr (isoformat_date d))"
| "isoformat (VDateTime t) = Some (VStr (isoformat_datetime t))"
| "isoformat _ = None"

definition isoformat_key :: "string \<Rightarrow> document \<Rightarrow> document option" where
  "isoformat_key k d = do { v \<leftarrow> d k; s \<leftarrow> isoformat v; Some (d(k \<mapsto> s)) }"

definition isoformat_dates :: "document \<Rightarrow> document option" where
  "isoformat_dates d =
     do {
       d \<leftarrow> isoformat_key ''start_date'' d;
       d \<leftarrow> isoformat_key ''expiry_date'' d;
       isoformat_key ''due_date'' d
     }"

text \<open>
  The three \<open>isinstance(..., str)\<close> blocks that \<open>get_tenders\<close>, \<open>get_tender\<close> and
  \<open>update_tender\<close> each carry: a stored string is parsed back, anything else is left as
  it is, and a string that does not parse raises \<open>ValueError\<close>.
\<close>

definition parse_date_key :: "string \<Rightarrow> document \<Rightarrow> document option" where
  "parse_date_key k d =
     (case d k of
        Some (VStr s) \<Rightarrow> map_option (\<lambda>t. d(k \<mapsto> VDate (date_of t))) (fromisoformat s)
      | _ \<Rightarrow> Some d)"

definition parse_datetime_key :: "string \<Rightarrow> document \<Rightarrow> document option" where
  "parse_datetime_key k d =
     (case d k of
        Some (VStr s) \<Rightarrow> map_option (\<lambda>t. d(k \<mapsto> VDateTime t)) (fromisoformat s)
      | _ \<Rightarrow> Some d)"

definition parse_dates :: "document \<Rightarrow> document option" where
  "parse_dates d =
     do {
       d \<leftarrow> parse_date_key ''start_date'' d;
       d \<leftarrow> parse_date_key ''expiry_date'' d;
       parse_datetime_key ''due_date'' d
     }"

definition not_found :: error where
  "not_found = HTTPException 404 ''Tender not found''"

definition by_id :: "string \<Rightarrow> query" where
  "by_id tender_id = [(''id'', VStr tender_id)]"

text \<open>\<open>POST /tenders\<close>\<close>

definition create_tender :: "world \<Rightarrow> TenderCreate \<Rightarrow> (error + Tender) \<times> world" where
  "create_tender w tender_data =
     (case isoformat_dates (TenderCreate_dict tender_data) of
        None \<Rightarrow> (Inl AttributeError, w)
      | Some tender_dict \<Rightarrow>
          (case Tender_init w tender_dict of
             (Inl e, w') \<Rightarrow> (Inl e, w')
           | (Inr tender_obj, w') \<Rightarrow>
               (case isoformat_dates (Tender_dict tender_obj) of
                  None \<Rightarrow> (Inl AttributeError, w')
                | Some tender_dict \<Rightarrow>
                    (Inr tender_obj, w'\<lparr>tenders := insert_one tender_dict (tenders w')\<rparr>))))"

text \<open>\<open>GET /tenders\<close>. A filter that is absent or empty is falsy and adds nothing to the query.\<close>

definition truthy :: "string option \<Rightarrow> bool" where
  "truthy x = (case x of None \<Rightarrow> False | Some s \<Rightarrow> s \<noteq> [])"

definition build_query :: "string option \<Rightarrow> string option \<Rightarrow> string option \<Rightarrow> query" where
  "build_query status' priority' customer' =
     (if truthy status' then [(''status'', VStr (the status'))] else [])
     @ (if truthy priority' then [(''priority'', VStr (the priority'))] else [])
     @ (if truthy customer' then [(''customer'', VStr (the customer'))] else [])"

fun parse_dates_all :: "document list \<Rightarrow> document list option" where
  "parse_dates_all [] = Some []"
| "parse_dates_all (d # ds) =
     do { d' \<leftarrow> parse_dates d; ds' \<leftarrow> parse_dates_all ds; Some (d' # ds') }"

fun Tender_init_all :: "world \<Rightarrow> document list \<Rightarrow> (error + Tender list) \<times> world" where
  "Tender_init_all w [] = (Inr [], w)"
| "Tender_init_all w (d # ds) =
     (case Tender_init w d of
        (Inl e, w') \<Rightarrow> (Inl e, w')
      | (Inr t, w') \<Rightarrow>
          (case Tender_init_all w' ds of
             (Inl e, w'') \<Rightarrow> (Inl e, w'')
           | (Inr ts, w'') \<Rightarrow> (Inr (t # ts), w'')))"

definition get_tenders ::
  "world \<Rightarrow> string option \<Rightarrow> string option \<Rightarrow> string option \<Rightarrow> (error + Tender list) \<times> world" where
  "get_tenders w status' priority' customer' =
     (let query = build_query status' priority' customer';
          found = to_list 1000 (find_docs query (tenders w))
      in case parse_dates_all found of
           None \<Rightarrow> (Inl ValueError, w)
         | Some found \<Rightarrow> Tender_init_all w found)"

text \<open>\<open>GET /tenders/{tender_id}\<close>\<close>

definition get_tender :: "world \<Rightarrow> string \<Rightarrow> (error + Tender) \<times> world" where
  "get_tender w tender_id =
     (case find_one (by_id tender_id) (tenders w) of
        None \<Rightarrow> (Inl not_found, w)
      | Some tender \<Rightarrow>
          (case parse_dates tender of
             None \<Rightarrow> (Inl ValueError, w)
           | Some tender \<Rightarrow> Tender_init w tender))"

text \<open>
  \<open>PUT /tenders/{tender_id}\<close>. \<open>update_data\<close> keeps the entries of the payload's
  dictionary that are not \<open>None\<close>.
\<close>

definition not_none :: "document \<Rightarrow> document" where
  "not_none d = (\<lambda>k. case d k of Some VNone \<Rightarrow> None | x \<Rightarrow> x)"

definition isoformat_if_present :: "string \<Rightarrow> document \<Rightarrow> document option" where
  "isoformat_if_present k d = (if k \<in> dom d then isoformat_key k d else Some d)"

definition update_data_of :: "TenderUpdate \<Rightarrow> document option" where
  "update_data_of tender_update =
     do {
       d \<leftarrow> isoformat_if_present ''start_date'' (not_none (TenderUpdate_dict tender_update));
       d \<leftarrow> isoformat_if_present ''expiry_date'' d;
       isoformat_if_present ''due_date'' d
     }"

definition update_tender :: "world \<Rightarrow> string \<Rightarrow> TenderUpdate \<Rightarrow> (error + Tender) \<times> world" where
  "update_tender w tender_id tender_update =
     (case update_data_of tender_update of
        None \<Rightarrow> (Inl AttributeError, w)
      | Some update_data \<Rightarrow>
          (let (now, w1) = utcnow w;
               update_data = update_data(''updated_at'' \<mapsto> VDateTime now);
               (matched_count, ds) = update_one (by_id tender_id) update_data (tenders w1);
               w2 = w1\<lparr>tenders := ds\<rparr>
           in if matched_count = 0 then (Inl not_found, w2)
              else (case find_one (by_id tender_id) (tenders w2) of
                      None \<Rightarrow> (Inl AttributeError, w2)
                    | Some updated_tender \<Rightarrow>
                        (case parse_dates updated_tender of
                           None \<Rightarrow> (Inl ValueError, w2)
                         | Some updated_tender \<Rightarrow> Tender_init w2 updated_tender))))"

text \<open>\<open>DELETE /tenders/{tender_id}\<close>\<close>

definition delete_tender :: "world \<Rightarrow> string \<Rightarrow> (error + string) \<times> world" where
  "delete_tender w tender_id =
     (let (deleted_count, ds) = delete_one (by_id tender_id) (tenders w);
          w' = w\<lparr>tenders := ds\<rparr>
      in if deleted_count = 0 then (Inl not_found, w')
         else (Inr ''Tender deleted successfully'', w'))"

text \<open>
  \<open>GET /tenders/filters/customers\<close> and \<open>GET /tenders/filters/sales-reps\<close>: the
  distinct values of one field over the documents that have it.
\<close>

definition distinct_values :: "string \<Rightarrow> document list \<Rightarrow> pyval list" where
  "distinct_values k ds = remdups (List.map_filter (\<lambda>d. d k) ds)"

definition get_customers :: "world \<Rightarrow> pyval list \<times> world" where
  "get_customers w = (distinct_values ''customer'' (tenders w), w)"

definition get_sales_reps :: "world \<Rightarrow> pyval list \<times> world" where
  "get_sales_reps w = (distinct_values ''assigned_sales_rep'' (tenders w), w)"

section \<open>Endpoints\<close>

text \<open>
  The framework validates the request body against the handler's parameter type before
  it calls the handler; a body that fails is answered without the handler running.
\<close>

definition post_tenders :: "world \<Rightarrow> document \<Rightarrow> (error + Tender) \<times> world" where
  "post_tenders w body =
     (case TenderCreate_validate w body of
        None \<Rightarrow> (Inl RequestValidationError, w)
      | Some tender_data \<Rightarrow> create_tender w tender_data)"

definition put_tender :: "world \<Rightarrow> string \<Rightarrow> document \<Rightarrow> (error + Tender) \<times> world" where
  "put_tender w tender_id body =
     (case TenderUpdate_validate w body of
        None \<Rightarrow> (Inl RequestValidationError, w)
      | Some tender_update \<Rightarrow> update_tender w tender_id tender_update)"

text \<open>
  What a client can ask of the service, and the world after each request and after a
  sequence of requests.
\<close>

datatype request =
  POST_tenders document
| GET_tenders "string option" "string option" "string option"
| GET_tender string
| PUT_tender string document
| DELETE_tender string
| GET_customers
| GET_sales_reps

fun serve :: "request \<Rightarrow> world \<Rightarrow> world" where
  "serve (POST_tenders body) w = snd (post_tenders w body)"
| "serve (GET_tenders status' priority' customer') w = snd (get_tenders w status' priority' customer')"
| "serve (GET_tender tender_id) w = snd (get_tender w tender_id)"
| "serve (PUT_tender tender_id body) w = snd (put_tender w tender_id body)"
| "serve (DELETE_tender tender_id) w = snd (delete_tender w tender_id)"
| "serve GET_customers w = snd (get_customers w)"
| "serve GET_sales_reps w = snd (get_sales_reps w)"

fun run :: "request list \<Rightarrow> world \<Rightarrow> world" where
  "run [] w = w"
| "run (r # rs) w = run rs (serve r w)"

section \<open>The operations as the specification words them\<close>

text \<open>
  The partial field-set of an update: only the fields of the payload that are not null,
  with the date fields as ISO-8601 strings.
\<close>

definition update_fields :: "TenderUpdate \<Rightarrow> document" where
  "update_fields u =
     (\<lambda>k. if k = ''item'' then map_option VStr (TenderUpdate.item u)
          else if k = ''customer'' then map_option VStr (TenderUpdate.customer u)
          else if k = ''tender_name'' then map_option VStr (TenderUpdate.tender_name u)
          else if k = ''status'' then map_option (\<lambda>s. VStr (status_value s)) (TenderUpdate.status u)
          else if k = ''start_date'' then map_option (\<lambda>d. VStr (isoformat_date d)) (TenderUpdate.start_date u)
          else if k = ''expiry_date'' then map_option (\<lambda>d. VStr (isoformat_date d)) (TenderUpdate.expiry_date u)
          else if k = ''due_date'' then map_option (\<lambda>t. VStr (isoformat_datetime t)) (TenderUpdate.due_date u)
          else if k = ''deal_value'' then map_option VFloat (TenderUpdate.deal_value u)
          else if k = ''priority'' then map_option (\<lambda>p. VStr (priority_value p)) (TenderUpdate.priority u)
          else if k = ''assigned_sales_rep'' then map_option VStr (TenderUpdate.assigned_sales_rep u)
          else None)"

text \<open>
  The persisted layout of a record: the \<open>Tender\<close> shape with the three date fields as
  ISO-8601 strings.
\<close>

definition stored_doc :: "Tender \<Rightarrow> document" where
  "stored_doc t =
     (Tender_dict t)
       (''start_date'' \<mapsto> VStr (isoformat_date (Tender.start_date t)),
        ''expiry_date'' \<mapsto> VStr (isoformat_date (Tender.expiry_date t)),
        ''due_date'' \<mapsto> VStr (isoformat_datetime (Tender.due_date t)))"

text \<open>
  The record of a create: the payload's fields, the next identifier of the generator, and
  the next two readings of the clock.
\<close>

definition new_tender :: "world \<Rightarrow> TenderCreate \<Rightarrow> Tender" where
  "new_tender w p =
     \<lparr>id' = uuid4_src w (uuid4_calls w),
      Tender.item = TenderCreate.item p,
      customer = TenderCreate.customer p,
      tender_name = TenderCreate.tender_name p,
      status = TenderCreate.status p,
      start_date = TenderCreate.start_date p,
      expiry_date = TenderCreate.expiry_date p,
      due_date = TenderCreate.due_date p,
      deal_value = TenderCreate.deal_value p,
      priority = TenderCreate.priority p,
      assigned_sales_rep = TenderCreate.assigned_sales_rep p,
      created_at = utcnow_src w (utcnow_calls w),
      updated_at = utcnow_src w (Suc (utcnow_calls w))\<rparr>"

text \<open>The dates of a payload or of a record are dates the standard library can hold.\<close>

definition TenderCreate_ok :: "TenderCreate \<Rightarrow> bool" where
  "TenderCreate_ok p =
     (date_ok (TenderCreate.start_date p) \<and> date_ok (TenderCreate.expiry_date p)
      \<and> datetime_ok (TenderCreate.due_date p))"

definition TenderUpdate_ok :: "TenderUpdate \<Rightarrow> bool" where
  "TenderUpdate_ok u =
     ((case TenderUpdate.start_date u of None \<Rightarrow> True | Some d \<Rightarrow> date_ok d)
      \<and> (case TenderUpdate.expiry_date u of None \<Rightarrow> True | Some d \<Rightarrow> date_ok d)
      \<and> (case TenderUpdate.due_date u of None \<Rightarrow> True | Some t \<Rightarrow> datetime_ok t))"

definition Tender_ok :: "Tender \<Rightarrow> bool" where
  "Tender_ok t =
     (date_ok (Tender.start_date t) \<and> date_ok (Tender.expiry_date t)
      \<and> datetime_ok (Tender.due_date t))"

text \<open>
  A stored document holds a record when its thirteen fields are those of the persisted
  layout of that record; further keys do not matter.
\<close>

definition represents :: "document \<Rightarrow> Tender \<Rightarrow> bool" where
  "represents d t =
     (d ''id'' = Some (VStr (id' t))
      \<and> d ''item'' = Some (VStr (Tender.item t))
      \<and> d ''customer'' = Some (VStr (Tender.customer t))
      \<and> d ''tender_name'' = Some (VStr (Tender.tender_name t))
      \<and> d ''status'' = Some (VStr (status_value (Tender.status t)))
      \<and> d ''start_date'' = Some (VStr (isoformat_date (Tender.start_date t)))
      \<and> d ''expiry_date'' = Some (VStr (isoformat_date (Tender.expiry_date t)))
      \<and> d ''due_date'' = Some (VStr (isoformat_datetime (Tender.due_date t)))
      \<and> d ''deal_value'' = Some (VFloat (Tender.deal_value t))
      \<and> d ''priority'' = Some (VStr (priority_value (Tender.priority t)))
      \<and> d ''assigned_sales_rep'' = Some (VStr (Tender.assigned_sales_rep t))
      \<and> d ''created_at'' = Some (VDateTime (created_at t))
      \<and> d ''updated_at'' = Some (VDateTime (updated_at t)))"

text \<open>
  The record after an update: the fields that the payload gives replace those of the
  record, \<open>updated_at\<close> becomes the current time, and every other field stays.
\<close>

definition apply_update :: "TenderUpdate \<Rightarrow> datetime \<Rightarrow> Tender \<Rightarrow> Tender" where
  "apply_update u now t =
     t\<lparr>Tender.item := (case TenderUpdate.item u of None \<Rightarrow> Tender.item t | Some x \<Rightarrow> x),
       Tender.customer := (case TenderUpdate.customer u of None \<Rightarrow> Tender.customer t | Some x \<Rightarrow> x),
       Tender.tender_name := (case TenderUpdate.tender_name u of None \<Rightarrow> Tender.tender_name t | Some x \<Rightarrow> x),
       Tender.status := (case TenderUpdate.status u of None \<Rightarrow> Tender.status t | Some x \<Rightarrow> x),
       Tender.start_date := (case TenderUpdate.start_date u of None \<Rightarrow> Tender.start_date t | Some x \<Rightarrow> x),
       Tender.expiry_date := (case TenderUpdate.expiry_date u of None \<Rightarrow> Tender.expiry_date t | Some x \<Rightarrow> x),
       Tender.due_date := (case TenderUpdate.due_date u of None \<Rightarrow> Tender.due_date t | Some x \<Rightarrow> x),
       Tender.deal_value := (case TenderUpdate.deal_value u of None \<Rightarrow> Tender.deal_value t | Some x \<Rightarrow> x),
       Tender.priority := (case TenderUpdate.priority u of None \<Rightarrow> Tender.priority t | Some x \<Rightarrow> x),
       Tender.assigned_sales_rep :=
         (case TenderUpdate.assigned_sales_rep u of None \<Rightarrow> Tender.assigned_sales_rep t | Some x \<Rightarrow> x),
       updated_at := now\<rparr>"

text \<open>What an update writes: the partial field-set and the new \<open>updated_at\<close>.\<close>

definition set_fields :: "TenderUpdate \<Rightarrow> datetime \<Rightarrow> document" where
  "set_fields u now = (update_fields u)(''updated_at'' \<mapsto> VDateTime now)"

text \<open>
  The records a list request selects: each filter that is given and not empty must equal
  the record's value exactly, and all of them together.
\<close>

definition selected :: "string option \<Rightarrow> string option \<Rightarrow> string option \<Rightarrow> Tender \<Rightarrow> bool" where
  "selected status' priority' customer' t =
     ((case status' of None \<Rightarrow> True | Some s \<Rightarrow> s = [] \<or> status_value (Tender.status t) = s)
      \<and> (case priority' of None \<Rightarrow> True | Some s \<Rightarrow> s = [] \<or> priority_value (Tender.priority t) = s)
      \<and> (case customer' of None \<Rightarrow> True | Some s \<Rightarrow> s = [] \<or> Tender.customer t = s))"

text \<open>
  The ids of the stored documents, in the order of the collection. They are unique when
  they are distinct values that the generator has already produced, for a generator that
  never produces a value twice.
\<close>

definition ids :: "world \<Rightarrow> pyval option list" where
  "ids w = map (\<lambda>d. d ''id'') (tenders w)"

definition unique_ids :: "world \<Rightarrow> bool" where
  "unique_ids w =
     (inj (uuid4_src w) \<and> distinct (ids w)
      \<and> (\<forall>x \<in> set (ids w). \<exists>n < uuid4_calls w. x = Some (VStr (uuid4_src w n))))"

section \<open>Sample data\<close>

definition sample_create :: TenderCreate where
  "sample_create =
     \<lparr>TenderCreate.item = ''Pumps'', customer = ''Acme'', tender_name = ''Harbour pumps'',
      status = OFFER,
      start_date = \<lparr>year = 2024, month = 1, day = 1\<rparr>,
      expiry_date = \<lparr>year = 2024, month = 2, day = 29\<rparr>,
      due_date = \<lparr>year = 2024, month = 1, day = 15, hour = 10, minute = 0, second = 0,
                  microsecond = 0, tzinfo = None\<rparr>,
      deal_value = 0x408F400000000000, priority = MEDIUM, assigned_sales_rep = ''Dana''\<rparr>"

definition sample_update :: TenderUpdate where
  "sample_update =
     \<lparr>TenderUpdate.item = None, customer = None, tender_name = None, status = None,
      start_date = None, expiry_date = None, due_date = None, deal_value = None,
      priority = Some HIGH, assigned_sales_rep = None\<rparr>"

definition sample_clock :: "nat \<Rightarrow> datetime" where
  "sample_clock n =
     \<lparr>year = 2024, month = 1, day = 2, hour = 9, minute = 30, second = 0,
      microsecond = 100 + n, tzinfo = None\<rparr>"

definition sample_uuids :: "nat \<Rightarrow> string" where
  "sample_uuids n = (if n = 0 then ''1b4e28ba'' else ''6fa459ea'')"

text \<open>
  The sample worlds run a validation library without lenient coercions; the theorems hold
  for every library.
\<close>

definition empty_world :: world where
  "empty_world =
     \<lparr>tenders = [], uuid4_src = sample_uuids, uuid4_calls = 0,
      utcnow_src = sample_clock, utcnow_calls = 0,
      lax_float = (\<lambda>v. None), lax_date = (\<lambda>v. None), lax_datetime = (\<lambda>v. None)\<rparr>"

definition sample_tender :: Tender where
  "sample_tender = new_tender empty_world sample_create"

definition sample_world :: world where
  "sample_world =
     \<lparr>tenders = [stored_doc sample_tender], uuid4_src = sample_uuids, uuid4_calls = 1,
      utcnow_src = sample_clock, utcnow_calls = 2,
      lax_float = (\<lambda>v. None), lax_date = (\<lambda>v. None), lax_datetime = (\<lambda>v. None)\<rparr>"

definition sample_body :: document where
  "sample_body =
     [''item'' \<mapsto> VStr ''Pumps'', ''customer'' \<mapsto> VStr ''Acme'',
      ''tender_name'' \<mapsto> VStr ''Harbour pumps'',
      ''start_date'' \<mapsto> VStr ''2024-01-01'', ''expiry_date'' \<mapsto> VStr ''2024-02-29'',
      ''due_date'' \<mapsto> VStr ''2024-01-15T10:00:00'',
      ''deal_value'' \<mapsto> VFloat 0x408F400000000000, ''priority'' \<mapsto> VStr ''Medium'',
      ''assigned_sales_rep'' \<mapsto> VStr ''Dana'']"

definition null_body :: document where
  "null_body = [''item'' \<mapsto> VNone, ''priority'' \<mapsto> VStr ''High'']"

definition null_status_body :: document where
  "null_status_body = [''status'' \<mapsto> VNone]"

definition empty_update :: TenderUpdate where
  "empty_update =
     \<lparr>TenderUpdate.item = None, customer = None, tender_name = None, status = None,
      start_date = None, expiry_date = None, due_date = None, deal_value = None,
      priority = None, assigned_sales_rep = None\<rparr>"

definition counting_uuids :: "nat \<Rightarrow> string" where
  "counting_uuids n = replicate (Suc n) CHR ''a''"

definition fresh_world :: world where
  "fresh_world =
     \<lparr>tenders = [], uuid4_src = counting_uuids, uuid4_calls = 0,
      utcnow_src = sample_clock, utcnow_calls = 0,
      lax_float = (\<lambda>v. None), lax_date = (\<lambda>v. None), lax_datetime = (\<lambda>v. None)\<rparr>"

section \<open>Round trip of the ISO-8601 boundary\<close>

lemma digit_val_digit_char: "n < 10 \<Longrightarrow> digit_val (digit_char n) = Some n"
  by (simp add: digit_val_def digit_char_def)

lemma digits_acc_append:
  "digits_acc a (xs @ ys) = (case digits_acc a xs of None \<Rightarrow> None | Some b \<Rightarrow> digits_acc b ys)"
  by (induction xs arbitrary: a) (auto split: option.splits)

lemma decimal_zero: "decimal 0 = []"
  by (simp add: decimal.simps)

lemma zpad_small: "n < 10 ^ k \<Longrightarrow> length (zpad k n) = k \<and> digits_acc a (zpad k n) = Some (a * 10 ^ k + n)"
proof (induction k arbitrary: n a)
  case 0
  then show ?case by (simp add: decimal_zero)
next
  case (Suc k)
  from Suc.prems have "n div 10 < 10 ^ k" by (simp add: less_mult_imp_div_less mult.commute)
  from Suc.IH[OF this] show ?case
    by (simp add: digits_acc_append digit_val_digit_char algebra_simps)
qed

lemma length_zpad: "n < 10 ^ k \<Longrightarrow> length (zpad k n) = k"
  by (simp add: zpad_small)

lemma int_of_digits_zpad: "n < 10 ^ k \<Longrightarrow> 0 < k \<Longrightarrow> int_of_digits (zpad k n) = Some n"
  using zpad_small [of n k 0] by (auto simp: int_of_digits_def)

lemma digit_char_is_digit: "digit_val (digit_char (n mod 10)) \<noteq> None"
  by (simp add: digit_val_digit_char)

lemma decimal_digits: "c \<in> set (decimal n) \<Longrightarrow> digit_val c \<noteq> None"
proof (induction n rule: decimal.induct)
  case (1 n)
  then show ?case
    by (cases "n = 0") (auto simp: decimal.simps [of n] decimal_zero digit_val_digit_char)
qed

lemma zpad_digits: "c \<in> set (zpad k n) \<Longrightarrow> digit_val c \<noteq> None"
  by (induction k arbitrary: n) (auto simp: digit_val_digit_char dest: decimal_digits)

lemma str_find_None: "str_find c s = None \<longleftrightarrow> c \<notin> set s"
  by (induction s) auto

lemma str_find_first: "c \<notin> set xs \<Longrightarrow> str_find c (xs @ c # ys) = Some (length xs)"
  by (induction xs) auto

lemma not_digit [simp]:
  "digit_val (CHR ''-'') = None" "digit_val (CHR ''+'') = None"
  "digit_val (CHR '':'') = None" "digit_val (CHR ''.'') = None"
  by (simp_all add: digit_val_def)

lemma ymd_ok_bounds: "ymd_ok y m d \<Longrightarrow> y < 10 ^ 4 \<and> m < 10 ^ 2 \<and> d < 10 ^ 2"
  by (auto simp: ymd_ok_def days_in_month_def split: if_splits)

lemma length_date_isoformat: "ymd_ok y m d \<Longrightarrow> length (date_isoformat y m d) = 10"
  using ymd_ok_bounds [of y m d] by (simp add: date_isoformat_def length_zpad)

lemma parse_date_isoformat:
  assumes "ymd_ok y m d"
  shows "parse_isoformat_date (date_isoformat y m d) = Some (y, m, d)"
proof -
  from ymd_ok_bounds [OF assms] have b: "y < 10 ^ 4" "m < 10 ^ 2" "d < 10 ^ 2" by simp_all
  have l: "length (zpad 4 y) = 4" "length (zpad 2 m) = 2" "length (zpad 2 d) = 2"
    using b by (simp_all only: length_zpad)
  have v: "int_of_digits (zpad 4 y) = Some y" "int_of_digits (zpad 2 m) = Some m"
    "int_of_digits (zpad 2 d) = Some d"
    using b by (simp_all only: int_of_digits_zpad zero_less_numeral)
  show ?thesis
    unfolding parse_isoformat_date_def date_isoformat_def
    by (simp add: l v nth_append del: zpad.simps)
qed


lemma length_time_isoformat:
  "hh < 100 \<Longrightarrow> mm < 100 \<Longrightarrow> ss < 100 \<Longrightarrow> us < 1000000 \<Longrightarrow>
   length (time_isoformat hh mm ss us) = (if us = 0 then 8 else 15)"
  by (simp add: time_isoformat_def length_zpad del: zpad.simps)

lemma parse_time_isoformat:
  assumes "hh < 100" "mm < 100" "ss < 100" "us < 1000000"
  shows "parse_hh_mm_ss_ff (time_isoformat hh mm ss us) = Some (hh, mm, ss, us)"
proof -
  have l: "length (zpad 2 hh) = 2" "length (zpad 2 mm) = 2" "length (zpad 2 ss) = 2"
    "length (zpad 6 us) = 6"
    using assms by (simp_all add: length_zpad del: zpad.simps)
  have v: "int_of_digits (zpad 2 hh) = Some hh" "int_of_digits (zpad 2 mm) = Some mm"
    "int_of_digits (zpad 2 ss) = Some ss" "int_of_digits (zpad 6 us) = Some us"
    using assms by (simp_all add: int_of_digits_zpad del: zpad.simps)
  show ?thesis
    unfolding parse_hh_mm_ss_ff_def time_isoformat_def parse_fraction_def
    by (simp add: l v nth_append del: zpad.simps)
qed

lemma time_isoformat_chars:
  "c \<in> set (time_isoformat hh mm ss us) \<Longrightarrow> c \<noteq> CHR ''-'' \<and> c \<noteq> CHR ''+''"
  by (auto simp: time_isoformat_def simp del: zpad.simps dest!: zpad_digits split: if_splits)

lemma tz_digits_chars:
  "c \<in> set (zpad 2 a @ '':'' @ zpad 2 b) \<Longrightarrow> c \<noteq> CHR ''-'' \<and> c \<noteq> CHR ''+''"
  by (auto simp del: zpad.simps dest!: zpad_digits)

lemma parse_tz_roundtrip:
  assumes "a < 100" "b < 100"
  shows "parse_tz sign (zpad 2 a @ '':'' @ zpad 2 b)
           = Some ((if sign = CHR ''-'' then - 1 else 1) * (int a * 60 + int b))"
proof -
  have l: "length (zpad 2 a) = 2" "length (zpad 2 b) = 2"
    using assms by (simp_all add: length_zpad del: zpad.simps)
  have v: "int_of_digits (zpad 2 a) = Some a" "int_of_digits (zpad 2 b) = Some b"
    using assms by (simp_all add: int_of_digits_zpad del: zpad.simps)
  show ?thesis
    unfolding parse_tz_def parse_hh_mm_ss_ff_def
    by (simp add: l v nth_append del: zpad.simps)
qed

lemma parse_isoformat_time_roundtrip:
  assumes "hh < 100" "mm < 100" "ss < 100" "us < 1000000" "tz_ok tz"
  shows "parse_isoformat_time (time_isoformat hh mm ss us @ tz_isoformat tz)
           = Some ((hh, mm, ss, us), tz)"
proof (cases tz)
  case None
  have "tz_pos (time_isoformat hh mm ss us) = None"
    using time_isoformat_chars [of _ hh mm ss us]
    by (auto simp: tz_pos_def str_find_None split: option.splits)
  with None show ?thesis
    by (simp add: parse_isoformat_time_def tz_isoformat_def parse_time_isoformat assms)
next
  case (Some off)
  let ?T = "time_isoformat hh mm ss us"
  let ?a = "nat \<bar>off\<bar> div 60" and ?b = "nat \<bar>off\<bar> mod 60"
  let ?R = "zpad 2 ?a @ '':'' @ zpad 2 ?b"
  let ?sg = "if off < 0 then CHR ''-'' else CHR ''+''"
  from assms(5) Some have off: "- 1440 < off" "off < 1440" by (simp_all add: tz_ok_def)
  then have ab: "?a < 100" "?b < 100" by auto
  have str: "?T @ tz_isoformat tz = ?T @ ?sg # ?R"
    by (simp add: Some tz_isoformat_def del: zpad.simps)
  have nT: "CHR ''-'' \<notin> set ?T" "CHR ''+'' \<notin> set ?T"
    using time_isoformat_chars [of _ hh mm ss us] by blast+
  have nR: "CHR ''-'' \<notin> set ?R" "CHR ''+'' \<notin> set ?R"
    using tz_digits_chars [of _ ?a ?b] by blast+
  have pos: "tz_pos (?T @ ?sg # ?R) = Some (length ?T)"
  proof (cases "off < 0")
    case True
    then show ?thesis using nT by (simp add: tz_pos_def str_find_first del: zpad.simps)
  next
    case False
    have "str_find (CHR ''-'') (?T @ CHR ''+'' # ?R) = None"
      using nT nR by (simp add: str_find_None del: zpad.simps)
    with False show ?thesis using nT by (simp add: tz_pos_def str_find_first del: zpad.simps)
  qed
  have val: "(if ?sg = CHR ''-'' then - 1 else 1) * (int ?a * 60 + int ?b) = off"
  proof -
    have "int ?a * 60 + int ?b = int (nat \<bar>off\<bar>)"
      by (metis (no_types) mult.commute mult_div_mod_eq of_nat_add of_nat_mult of_nat_numeral)
    then show ?thesis by (cases "off < 0") auto
  qed
  have ptz: "parse_tz ?sg ?R = Some off"
    using parse_tz_roundtrip [OF ab, of ?sg] val by (simp only:)
  have parts: "take (length ?T) (?T @ ?sg # ?R) = ?T" "(?T @ ?sg # ?R) ! length ?T = ?sg"
    "drop (Suc (length ?T)) (?T @ ?sg # ?R) = ?R"
    by (simp_all del: zpad.simps)
  have "parse_isoformat_time (?T @ ?sg # ?R) = Some ((hh, mm, ss, us), Some off)"
    unfolding parse_isoformat_time_def pos option.case parts ptz
    by (simp add: parse_time_isoformat assms)
  with str show ?thesis
    by (simp only: Some)
qed

lemma fromisoformat_isoformat_datetime:
  assumes "datetime_ok t"
  shows "fromisoformat (isoformat_datetime t) = Some t"
proof -
  from assms have ymd: "ymd_ok (year t) (month t) (day t)"
    and tm: "hour t < 100" "minute t < 100" "second t < 100" "microsecond t < 1000000"
    and tz: "tz_ok (tzinfo t)"
    by (simp_all add: datetime_ok_def)
  let ?D = "date_isoformat (year t) (month t) (day t)"
  let ?T = "time_isoformat (hour t) (minute t) (second t) (microsecond t) @ tz_isoformat (tzinfo t)"
  have lD: "length ?D = 10" by (rule length_date_isoformat [OF ymd])
  have nT: "time_isoformat (hour t) (minute t) (second t) (microsecond t) \<noteq> []"
    using length_time_isoformat [OF tm] by (auto split: if_splits)
  have s: "isoformat_datetime t = ?D @ CHR ''T'' # ?T"
    by (simp add: isoformat_datetime_def)
  have tk: "take 10 (?D @ CHR ''T'' # ?T) = ?D" "drop 11 (?D @ CHR ''T'' # ?T) = ?T"
    using lD by simp_all
  have "datetime_new (year t) (month t) (day t) (hour t) (minute t) (second t) (microsecond t)
          (tzinfo t) = Some t"
    using assms by (simp add: datetime_new_def datetime_ok_def)
  then show ?thesis
    unfolding s fromisoformat_def tk
    using nT by (simp add: parse_date_isoformat [OF ymd] parse_isoformat_time_roundtrip [OF tm tz])
qed

lemma fromisoformat_isoformat_date:
  assumes "date_ok d"
  shows "map_option date_of (fromisoformat (isoformat_date d)) = Some d"
proof -
  from assms have ymd: "ymd_ok (year d) (month d) (day d)" by (simp add: date_ok_def)
  have lD: "length (isoformat_date d) = 10"
    unfolding isoformat_date_def by (rule length_date_isoformat [OF ymd])
  show ?thesis
    unfolding fromisoformat_def
    using lD ymd
    by (simp add: parse_date_isoformat [OF ymd, folded isoformat_date_def] datetime_new_def
        tz_ok_def date_of_def)
qed

section \<open>The partial field-set of an update\<close>

lemma not_none_empty: "not_none Map.empty = Map.empty"
  by (simp add: not_none_def)

lemma not_none_upd:
  "(\<And>a. f a \<noteq> VNone) \<Longrightarrow> not_none (d(k \<mapsto> opt f x)) = (not_none d)(k := map_option f x)"
  by (cases x) (auto simp: not_none_def opt_def fun_eq_iff split: pyval.splits)

lemma not_none_dict:
  "not_none (TenderUpdate_dict u) =
     Map.empty
      (''item'' := map_option VStr (TenderUpdate.item u),
       ''customer'' := map_option VStr (TenderUpdate.customer u),
       ''tender_name'' := map_option VStr (TenderUpdate.tender_name u),
       ''status'' := map_option (\<lambda>s. VStr (status_value s)) (TenderUpdate.status u),
       ''start_date'' := map_option VDate (TenderUpdate.start_date u),
       ''expiry_date'' := map_option VDate (TenderUpdate.expiry_date u),
       ''due_date'' := map_option VDateTime (TenderUpdate.due_date u),
       ''deal_value'' := map_option VFloat (TenderUpdate.deal_value u),
       ''priority'' := map_option (\<lambda>p. VStr (priority_value p)) (TenderUpdate.priority u),
       ''assigned_sales_rep'' := map_option VStr (TenderUpdate.assigned_sales_rep u))"
  unfolding TenderUpdate_dict_def
  by (simp only: not_none_upd not_none_empty pyval.distinct not_False_eq_True)


lemma isoformat_if_present_step:
  assumes "d k = map_option f x" "\<And>a. isoformat (f a) = Some (g a)"
  shows "isoformat_if_present k d = Some (d(k := map_option g x))"
  using assms by (cases x) (auto simp: isoformat_if_present_def isoformat_key_def dom_def)

lemma update_data_of_eq: "update_data_of u = Some (update_fields u)"
proof -
  let ?D = "not_none (TenderUpdate_dict u)"
  let ?D1 = "?D(''start_date'' := map_option (\<lambda>d. VStr (isoformat_date d)) (TenderUpdate.start_date u))"
  let ?D2 = "?D1(''expiry_date'' := map_option (\<lambda>d. VStr (isoformat_date d)) (TenderUpdate.expiry_date u))"
  let ?D3 = "?D2(''due_date'' := map_option (\<lambda>t. VStr (isoformat_datetime t)) (TenderUpdate.due_date u))"
  have 1: "isoformat_if_present ''start_date'' ?D = Some ?D1"
    by (rule isoformat_if_present_step [where f = VDate]) (simp_all add: not_none_dict)
  have 2: "isoformat_if_present ''expiry_date'' ?D1 = Some ?D2"
    by (rule isoformat_if_present_step [where f = VDate]) (simp_all add: not_none_dict)
  have 3: "isoformat_if_present ''due_date'' ?D2 = Some ?D3"
    by (rule isoformat_if_present_step [where f = VDateTime]) (simp_all add: not_none_dict)
  have "?D3 = update_fields u"
    by (rule ext) (simp add: not_none_dict update_fields_def)
  then show ?thesis
    by (simp add: update_data_of_def 1 2 3)
qed

section \<open>Lookups that match nothing\<close>

lemma matches_by_id: "matches (by_id i) d \<longleftrightarrow> d ''id'' = Some (VStr i)"
  by (simp add: matches_def by_id_def)

lemma find_one_no_match: "\<forall>d \<in> set ds. \<not> matches q d \<Longrightarrow> find_one q ds = None"
  by (induction ds) (auto simp: find_one_def)

lemma update_one_no_match: "\<forall>d \<in> set ds. \<not> matches q d \<Longrightarrow> update_one q u ds = (0, ds)"
  by (induction ds) auto

lemma delete_one_no_match: "\<forall>d \<in> set ds. \<not> matches q d \<Longrightarrow> delete_one q ds = (0, ds)"
  by (induction ds) auto

section \<open>Not found\<close>

text \<open>
  C4. When no record of the store has the requested id, get-by-id, update and delete each
  answer with the not-found error (HTTP 404), and the collection after the operation is the
  collection before it.
\<close>

theorem missing_id_not_found:
  assumes "\<forall>d \<in> set (tenders w). d ''id'' \<noteq> Some (VStr tender_id)"
  shows "get_tender w tender_id = (Inl (HTTPException 404 ''Tender not found''), w)
       \<and> fst (update_tender w tender_id tender_update) = Inl (HTTPException 404 ''Tender not found'')
       \<and> tenders (snd (update_tender w tender_id tender_update)) = tenders w
       \<and> delete_tender w tender_id = (Inl (HTTPException 404 ''Tender not found''), w)
       \<and> status_code (HTTPException 404 ''Tender not found'') = 404"
proof -
  from assms have nm: "\<forall>d \<in> set (tenders w). \<not> matches (by_id tender_id) d"
    by (simp add: matches_by_id)
  have g: "get_tender w tender_id = (Inl not_found, w)"
    by (simp add: get_tender_def find_one_no_match [OF nm])
  have nm': "\<forall>d \<in> set (tenders (snd (utcnow w))). \<not> matches (by_id tender_id) d"
    using nm by (simp add: utcnow_def)
  have u: "update_tender w tender_id tender_update
             = (Inl not_found, w\<lparr>utcnow_calls := Suc (utcnow_calls w)\<rparr>)"
    using update_one_no_match [OF nm']
    by (simp add: update_tender_def update_data_of_eq utcnow_def)
  have d: "delete_tender w tender_id = (Inl not_found, w)"
    by (simp add: delete_tender_def delete_one_no_match [OF nm])
  show ?thesis
    by (simp add: g u d) (simp add: not_found_def)
qed

theorem missing_id_not_found_witness:
  "map (\<lambda>d. d ''id'') (tenders sample_world) = [Some (VStr ''1b4e28ba'')]
   \<and> get_tender sample_world ''6fa459ea''
       = (Inl (HTTPException 404 ''Tender not found''), sample_world)
   \<and> fst (update_tender sample_world ''6fa459ea'' sample_update)
       = Inl (HTTPException 404 ''Tender not found'')
   \<and> tenders (snd (update_tender sample_world ''6fa459ea'' sample_update))
       = tenders sample_world
   \<and> delete_tender sample_world ''6fa459ea''
       = (Inl (HTTPException 404 ''Tender not found''), sample_world)"
proof -
  have i: "map (\<lambda>d. d ''id'') (tenders sample_world) = [Some (VStr ''1b4e28ba'')]"
    by (simp add: sample_world_def stored_doc_def Tender_dict_def sample_tender_def
        new_tender_def empty_world_def sample_uuids_def)
  have h: "\<forall>d \<in> set (tenders sample_world). d ''id'' \<noteq> Some (VStr ''6fa459ea'')"
    by (simp add: sample_world_def stored_doc_def Tender_dict_def sample_tender_def
        new_tender_def empty_world_def sample_uuids_def)
  show ?thesis
    using i missing_id_not_found [OF h, of sample_update] by simp
qed

section \<open>Listing\<close>


section \<open>Create, and reading a stored record back\<close>

lemma TenderStatus_of_value: "TenderStatus_of (status_value s) = Some s"
  by (cases s) (simp_all add: TenderStatus_of_def TenderStatus_members_def)

lemma PriorityLevel_of_value: "PriorityLevel_of (priority_value p) = Some p"
  by (cases p) (simp_all add: PriorityLevel_of_def PriorityLevel_members_def)

lemma TenderStatus_of_Some: "TenderStatus_of s = Some m \<Longrightarrow> status_value m = s"
  by (auto simp: TenderStatus_of_def dest: find_Some_iff [THEN iffD1])

lemma PriorityLevel_of_Some: "PriorityLevel_of s = Some m \<Longrightarrow> priority_value m = s"
  by (auto simp: PriorityLevel_of_def dest: find_Some_iff [THEN iffD1])

lemma parse_date_isoformat_date: "date_ok d \<Longrightarrow> parse_date (isoformat_date d) = Some d"
  by (simp add: parse_date_def isoformat_date_def date_ok_def parse_date_isoformat date_new_def)

lemma parse_datetime_isoformat_datetime:
  "datetime_ok t \<Longrightarrow> parse_datetime (isoformat_datetime t) = Some t"
  by (simp add: parse_datetime_def fromisoformat_isoformat_datetime)

lemma date_validator_isoformat_date:
  "date_ok d \<Longrightarrow> date_validator w (VStr (isoformat_date d)) = Some d"
  by (simp add: parse_date_isoformat_date)

lemma datetime_validator_isoformat_datetime:
  "datetime_ok t \<Longrightarrow> datetime_validator w (VStr (isoformat_datetime t)) = Some t"
  by (simp add: parse_datetime_isoformat_datetime)

lemma isoformat_dates_eq:
  assumes "d ''start_date'' = Some (VDate a)" "d ''expiry_date'' = Some (VDate b)"
    "d ''due_date'' = Some (VDateTime c)"
  shows "isoformat_dates d
           = Some (d(''start_date'' \<mapsto> VStr (isoformat_date a),
                     ''expiry_date'' \<mapsto> VStr (isoformat_date b),
                     ''due_date'' \<mapsto> VStr (isoformat_datetime c)))"
  using assms by (simp add: isoformat_dates_def isoformat_key_def)

lemma Tender_init_eq:
  assumes "default_factory uuid4 str_validator d ''id'' w = (Some v_id, w1)"
    "default_factory utcnow (datetime_validator w) d ''created_at'' w1 = (Some v_created_at, w2)"
    "default_factory utcnow (datetime_validator w) d ''updated_at'' w2 = (Some v_updated_at, w3)"
    "required str_validator d ''item'' = Some v_item"
    "required str_validator d ''customer'' = Some v_customer"
    "required str_validator d ''tender_name'' = Some v_tender_name"
    "required status_validator d ''status'' = Some v_status"
    "required (date_validator w) d ''start_date'' = Some v_start_date"
    "required (date_validator w) d ''expiry_date'' = Some v_expiry_date"
    "required (datetime_validator w) d ''due_date'' = Some v_due_date"
    "required (float_validator w) d ''deal_value'' = Some v_deal_value"
    "required priority_validator d ''priority'' = Some v_priority"
    "required str_validator d ''assigned_sales_rep'' = Some v_assigned_sales_rep"
  shows "Tender_init w d =
           (Inr \<lparr>id' = v_id, Tender.item = v_item, customer = v_customer,
                  tender_name = v_tender_name, status = v_status, start_date = v_start_date,
                  expiry_date = v_expiry_date, due_date = v_due_date,
                  deal_value = v_deal_value, priority = v_priority,
                  assigned_sales_rep = v_assigned_sales_rep, created_at = v_created_at,
                  updated_at = v_updated_at\<rparr>, w3)"
  by (simp add: Tender_init_def assms)

lemma create_dict_iso:
  "isoformat_dates (TenderCreate_dict p)
     = Some ((TenderCreate_dict p)
              (''start_date'' \<mapsto> VStr (isoformat_date (TenderCreate.start_date p)),
               ''expiry_date'' \<mapsto> VStr (isoformat_date (TenderCreate.expiry_date p)),
               ''due_date'' \<mapsto> VStr (isoformat_datetime (TenderCreate.due_date p))))"
  by (rule isoformat_dates_eq) (simp_all add: TenderCreate_dict_def)

lemma Tender_dict_iso: "isoformat_dates (Tender_dict t) = Some (stored_doc t)"
  unfolding stored_doc_def
  by (rule isoformat_dates_eq) (simp_all add: Tender_dict_def)

lemma Tender_init_create:
  assumes "TenderCreate_ok p"
  shows "Tender_init w ((TenderCreate_dict p)
              (''start_date'' \<mapsto> VStr (isoformat_date (TenderCreate.start_date p)),
               ''expiry_date'' \<mapsto> VStr (isoformat_date (TenderCreate.expiry_date p)),
               ''due_date'' \<mapsto> VStr (isoformat_datetime (TenderCreate.due_date p))))
         = (Inr (new_tender w p),
            w\<lparr>uuid4_calls := Suc (uuid4_calls w), utcnow_calls := Suc (Suc (utcnow_calls w))\<rparr>)"
proof -
  from assms have ok: "date_ok (TenderCreate.start_date p)" "date_ok (TenderCreate.expiry_date p)"
    "datetime_ok (TenderCreate.due_date p)"
    by (simp_all add: TenderCreate_ok_def)
  show ?thesis
    unfolding new_tender_def
    apply (rule Tender_init_eq [where
          ?w1.0 = "w\<lparr>uuid4_calls := Suc (uuid4_calls w)\<rparr>" and
          ?w2.0 = "w\<lparr>uuid4_calls := Suc (uuid4_calls w), utcnow_calls := Suc (utcnow_calls w)\<rparr>"])
                apply (simp_all add: default_factory_def required_def TenderCreate_dict_def
        uuid4_def utcnow_def TenderStatus_of_value PriorityLevel_of_value
        parse_date_isoformat_date parse_datetime_isoformat_datetime ok)
    done
qed

lemma create_tender_eq:
  assumes "TenderCreate_ok p"
  shows "create_tender w p =
           (Inr (new_tender w p),
            w\<lparr>uuid4_calls := Suc (uuid4_calls w), utcnow_calls := Suc (Suc (utcnow_calls w)),
              tenders := tenders w @ [stored_doc (new_tender w p)]\<rparr>)"
  by (simp add: create_tender_def create_dict_iso Tender_init_create [OF assms] Tender_dict_iso
      insert_one_def)


lemma represents_stored_doc: "represents (stored_doc t) t"
  by (simp add: represents_def stored_doc_def Tender_dict_def)

lemma parse_dates_eq:
  assumes "d ''start_date'' = Some (VStr (isoformat_date a))" "date_ok a"
    "d ''expiry_date'' = Some (VStr (isoformat_date b))" "date_ok b"
    "d ''due_date'' = Some (VStr (isoformat_datetime c))" "datetime_ok c"
  shows "parse_dates d = Some (d(''start_date'' \<mapsto> VDate a, ''expiry_date'' \<mapsto> VDate b,
                                 ''due_date'' \<mapsto> VDateTime c))"
proof -
  from fromisoformat_isoformat_date [OF assms(2)]
  obtain ta where ta: "fromisoformat (isoformat_date a) = Some ta" "date_of ta = a" by auto
  from fromisoformat_isoformat_date [OF assms(4)]
  obtain tb where tb: "fromisoformat (isoformat_date b) = Some tb" "date_of tb = b" by auto
  show ?thesis
    using assms(1,3,5)
    by (simp add: parse_dates_def parse_date_key_def parse_datetime_key_def ta tb
        fromisoformat_isoformat_datetime [OF assms(6)])
qed

lemma load_represented:
  assumes "represents d t" "Tender_ok t"
  shows "\<exists>d'. parse_dates d = Some d' \<and> Tender_init w d' = (Inr t, w)"
proof -
  from assms(2) have ok: "date_ok (Tender.start_date t)" "date_ok (Tender.expiry_date t)"
    "datetime_ok (Tender.due_date t)" by (simp_all add: Tender_ok_def)
  let ?d' = "d(''start_date'' \<mapsto> VDate (Tender.start_date t),
               ''expiry_date'' \<mapsto> VDate (Tender.expiry_date t),
               ''due_date'' \<mapsto> VDateTime (Tender.due_date t))"
  from assms(1) have p: "parse_dates d = Some ?d'"
    by (intro parse_dates_eq ok) (simp_all add: represents_def)
  have "Tender_init w ?d' =
          (Inr \<lparr>id' = id' t, Tender.item = Tender.item t, customer = Tender.customer t,
                 tender_name = Tender.tender_name t, status = Tender.status t,
                 start_date = Tender.start_date t, expiry_date = Tender.expiry_date t,
                 due_date = Tender.due_date t, deal_value = Tender.deal_value t,
                 priority = Tender.priority t,
                 assigned_sales_rep = Tender.assigned_sales_rep t,
                 created_at = created_at t, updated_at = updated_at t\<rparr>, w)"
    using assms(1)
    by (intro Tender_init_eq [where ?w1.0 = w and ?w2.0 = w])
       (simp_all add: represents_def default_factory_def required_def
          TenderStatus_of_value PriorityLevel_of_value)
  then have "Tender_init w ?d' = (Inr t, w)" by simp
  with p show ?thesis by blast
qed

lemma get_tender_represented:
  assumes "find_one (by_id i) (tenders w) = Some d" "represents d t" "Tender_ok t"
  shows "get_tender w i = (Inr t, w)"
  using load_represented [OF assms(2,3), of w] assms(1)
  by (auto simp: get_tender_def)

lemma find_one_append_new:
  "\<forall>x \<in> set ds. \<not> matches q x \<Longrightarrow> matches q d \<Longrightarrow> find_one q (ds @ [d]) = Some d"
  by (induction ds) (auto simp: find_one_def)

lemma Tender_ok_new: "TenderCreate_ok p \<Longrightarrow> Tender_ok (new_tender w p)"
  by (simp add: TenderCreate_ok_def Tender_ok_def new_tender_def)

lemma sample_create_ok: "TenderCreate_ok sample_create"
  by (simp add: TenderCreate_ok_def sample_create_def date_ok_def datetime_ok_def ymd_ok_def
      days_in_month_def is_leap_def tz_ok_def)

lemma sample_world_created:
  "create_tender empty_world sample_create = (Inr sample_tender, sample_world)"
  by (simp add: create_tender_eq [OF sample_create_ok] sample_tender_def sample_world_def
      empty_world_def)

lemma sample_isoformat:
  "isoformat_date (TenderCreate.start_date sample_create) = ''2024-01-01''"
  "isoformat_date (TenderCreate.expiry_date sample_create) = ''2024-02-29''"
  "isoformat_datetime (TenderCreate.due_date sample_create) = ''2024-01-15T10:00:00''"
  by code_simp+

lemma sample_create_dates:
  "TenderCreate.start_date sample_create = \<lparr>year = 2024, month = 1, day = 1\<rparr>"
  "TenderCreate.expiry_date sample_create = \<lparr>year = 2024, month = 2, day = 29\<rparr>"
  "TenderCreate.due_date sample_create
     = \<lparr>year = 2024, month = 1, day = 15, hour = 10, minute = 0, second = 0,
        microsecond = 0, tzinfo = None\<rparr>"
  by (simp_all add: sample_create_def)

lemma sample_world_ids: "map (\<lambda>d. d ''id'') (tenders sample_world) = [Some (VStr ''1b4e28ba'')]"
  by (simp add: sample_world_def stored_doc_def Tender_dict_def sample_tender_def
      new_tender_def empty_world_def sample_uuids_def)

section \<open>Round trip of the dates\<close>

text \<open>
  C1. For a create payload whose dates are dates of the calendar, and an identifier generator
  that does not repeat a stored id, create stores the three dates as ISO-8601 strings, and
  fetching the returned id gives a record whose \<open>start_date\<close>, \<open>expiry_date\<close> (of type
  \<open>date\<close>) and \<open>due_date\<close> (of type \<open>datetime\<close>) are those of the payload.
\<close>

theorem dates_round_trip:
  assumes "TenderCreate_ok p"
    and "\<forall>d \<in> set (tenders w). d ''id'' \<noteq> Some (VStr (uuid4_src w (uuid4_calls w)))"
  shows "\<exists>t w' t' w''.
           create_tender w p = (Inr t, w')
         \<and> last (tenders w') ''start_date'' = Some (VStr (isoformat_date (TenderCreate.start_date p)))
         \<and> last (tenders w') ''expiry_date'' = Some (VStr (isoformat_date (TenderCreate.expiry_date p)))
         \<and> last (tenders w') ''due_date'' = Some (VStr (isoformat_datetime (TenderCreate.due_date p)))
         \<and> get_tender w' (id' t) = (Inr t', w'')
         \<and> Tender.start_date t' = TenderCreate.start_date p
         \<and> Tender.expiry_date t' = TenderCreate.expiry_date p
         \<and> Tender.due_date t' = TenderCreate.due_date p"
proof -
  let ?t = "new_tender w p"
  let ?w' = "w\<lparr>uuid4_calls := Suc (uuid4_calls w), utcnow_calls := Suc (Suc (utcnow_calls w)),
               tenders := tenders w @ [stored_doc ?t]\<rparr>"
  have c: "create_tender w p = (Inr ?t, ?w')" by (rule create_tender_eq [OF assms(1)])
  have i: "id' ?t = uuid4_src w (uuid4_calls w)" by (simp add: new_tender_def)
  have r: "represents (stored_doc ?t) ?t" by (rule represents_stored_doc)
  from assms(2) have "\<forall>x \<in> set (tenders w). \<not> matches (by_id (id' ?t)) x"
    by (simp add: matches_by_id i)
  moreover have "matches (by_id (id' ?t)) (stored_doc ?t)"
    using r by (simp add: matches_by_id represents_def)
  ultimately have f: "find_one (by_id (id' ?t)) (tenders ?w') = Some (stored_doc ?t)"
    by (simp add: find_one_append_new)
  have g: "get_tender ?w' (id' ?t) = (Inr ?t, ?w')"
    by (rule get_tender_represented [OF f r Tender_ok_new [OF assms(1)]])
  have s: "last (tenders ?w') = stored_doc ?t" by simp
  have v: "stored_doc ?t ''start_date'' = Some (VStr (isoformat_date (TenderCreate.start_date p)))"
    "stored_doc ?t ''expiry_date'' = Some (VStr (isoformat_date (TenderCreate.expiry_date p)))"
    "stored_doc ?t ''due_date'' = Some (VStr (isoformat_datetime (TenderCreate.due_date p)))"
    by (simp_all add: stored_doc_def new_tender_def)
  have e: "Tender.start_date ?t = TenderCreate.start_date p"
    "Tender.expiry_date ?t = TenderCreate.expiry_date p"
    "Tender.due_date ?t = TenderCreate.due_date p"
    by (simp_all add: new_tender_def)
  from c g s v e show ?thesis by metis
qed

theorem dates_round_trip_witness:
  "\<exists>t w' t' w''.
     create_tender sample_world sample_create = (Inr t, w')
   \<and> last (tenders w') ''start_date'' = Some (VStr ''2024-01-01'')
   \<and> last (tenders w') ''expiry_date'' = Some (VStr ''2024-02-29'')
   \<and> last (tenders w') ''due_date'' = Some (VStr ''2024-01-15T10:00:00'')
   \<and> get_tender w' (id' t) = (Inr t', w'')
   \<and> Tender.start_date t' = \<lparr>year = 2024, month = 1, day = 1\<rparr>
   \<and> Tender.expiry_date t' = \<lparr>year = 2024, month = 2, day = 29\<rparr>
   \<and> Tender.due_date t' = \<lparr>year = 2024, month = 1, day = 15, hour = 10, minute = 0,
        second = 0, microsecond = 0, tzinfo = None\<rparr>"
proof -
  have h: "\<forall>d \<in> set (tenders sample_world).
             d ''id'' \<noteq> Some (VStr (uuid4_src sample_world (uuid4_calls sample_world)))"
    by (simp add: sample_world_def stored_doc_def Tender_dict_def sample_tender_def
        new_tender_def empty_world_def sample_uuids_def)
  show ?thesis
    using dates_round_trip [OF sample_create_ok h, unfolded sample_isoformat,
        unfolded sample_create_dates] .
qed

section \<open>What create assigns\<close>

text \<open>
  The clock is read once for \<open>created_at\<close> and once more for \<open>updated_at\<close>; with a
  clock that advances between the two readings the record of a create has two different
  timestamps.
\<close>

theorem create_timestamps_differ:
  "fst (create_tender empty_world sample_create) = Inr sample_tender
   \<and> created_at sample_tender \<noteq> updated_at sample_tender"
  by (simp add: create_tender_eq [OF sample_create_ok] sample_tender_def new_tender_def
      empty_world_def sample_clock_def)

text \<open>
  C5, as amended. For a create payload whose dates are dates of the calendar, the record
  returned by create has the identifier that the generator produces for this request,
  \<open>created_at\<close> is the next reading of the clock and \<open>updated_at\<close> the reading after
  it, so the two are equal exactly when the two readings coincide. When no stored record
  has the generated identifier, the new record is the only one of the collection with it.
\<close>

theorem create_assigns_id_and_clock_readings:
  assumes "TenderCreate_ok p"
  shows "\<exists>t w'. create_tender w p = (Inr t, w')
         \<and> id' t = uuid4_src w (uuid4_calls w)
         \<and> created_at t = utcnow_src w (utcnow_calls w)
         \<and> updated_at t = utcnow_src w (Suc (utcnow_calls w))
         \<and> (created_at t = updated_at t
              \<longleftrightarrow> utcnow_src w (utcnow_calls w) = utcnow_src w (Suc (utcnow_calls w)))
         \<and> ((\<forall>d \<in> set (tenders w). d ''id'' \<noteq> Some (VStr (uuid4_src w (uuid4_calls w))))
              \<longrightarrow> filter (\<lambda>d. d ''id'' = Some (VStr (id' t))) (tenders w') = [stored_doc t])"
proof -
  let ?t = "new_tender w p"
  have i: "stored_doc ?t ''id'' = Some (VStr (uuid4_src w (uuid4_calls w)))"
    by (simp add: stored_doc_def Tender_dict_def new_tender_def)
  have "(\<forall>d \<in> set (tenders w). d ''id'' \<noteq> Some (VStr (uuid4_src w (uuid4_calls w))))
        \<longrightarrow> filter (\<lambda>d. d ''id'' = Some (VStr (id' ?t))) (tenders w @ [stored_doc ?t]) = [stored_doc ?t]"
    using i by (simp add: new_tender_def filter_empty_conv)
  then show ?thesis
    by (simp add: create_tender_eq [OF assms]) (simp add: new_tender_def)
qed

theorem create_assigns_id_and_clock_readings_witness:
  "\<exists>t w'. create_tender sample_world sample_create = (Inr t, w')
     \<and> id' t = ''6fa459ea''
     \<and> created_at t = sample_clock 2
     \<and> updated_at t = sample_clock 3
     \<and> filter (\<lambda>d. d ''id'' = Some (VStr (id' t))) (tenders w') = [stored_doc t]"
proof -
  have h: "\<forall>d \<in> set (tenders sample_world).
             d ''id'' \<noteq> Some (VStr (uuid4_src sample_world (uuid4_calls sample_world)))"
    by (simp add: sample_world_def stored_doc_def Tender_dict_def sample_tender_def
        new_tender_def empty_world_def sample_uuids_def)
  have v: "uuid4_src sample_world (uuid4_calls sample_world) = ''6fa459ea''"
    "utcnow_src sample_world (utcnow_calls sample_world) = sample_clock 2"
    "utcnow_src sample_world (Suc (utcnow_calls sample_world)) = sample_clock 3"
    by (simp_all add: sample_world_def sample_uuids_def eval_nat_numeral)
  from create_assigns_id_and_clock_readings [OF sample_create_ok, of sample_world] h
  show ?thesis
    unfolding v by blast
qed

section \<open>Validation of request bodies\<close>

lemma status_validator_invalid:
  assumes "v \<notin> {VStr ''Offer'', VStr ''Round 1'', VStr ''Round 2'', VStr ''Round 3'',
                VStr ''Round 4'', VStr ''BAFO'', VStr ''Contract Signed'', VStr ''Won'',
                VStr ''Lost''}"
  shows "status_validator v = None"
  using assms by (cases v) (auto simp: TenderStatus_of_def TenderStatus_members_def)

lemma priority_validator_invalid:
  assumes "v \<notin> {VStr ''High'', VStr ''Medium'', VStr ''Low''}"
  shows "priority_validator v = None"
  using assms by (cases v) (auto simp: PriorityLevel_of_def PriorityLevel_members_def)

lemma TenderCreate_validate_status:
  "with_default OFFER status_validator b ''status'' = None \<Longrightarrow> TenderCreate_validate w b = None"
  by (simp add: TenderCreate_validate_def split: Option.bind_splits)

lemma TenderCreate_validate_priority:
  "required priority_validator b ''priority'' = None \<Longrightarrow> TenderCreate_validate w b = None"
  by (simp add: TenderCreate_validate_def split: Option.bind_splits)

lemma TenderUpdate_validate_status:
  "optional status_validator b ''status'' = None \<Longrightarrow> TenderUpdate_validate w b = None"
  by (simp add: TenderUpdate_validate_def split: Option.bind_splits)

lemma TenderUpdate_validate_priority:
  "optional priority_validator b ''priority'' = None \<Longrightarrow> TenderUpdate_validate w b = None"
  by (simp add: TenderUpdate_validate_def split: Option.bind_splits)

lemma optional_invalid: "d k = Some v \<Longrightarrow> v \<noteq> VNone \<Longrightarrow> f v = None \<Longrightarrow> optional f d k = None"
  by (cases v) (simp_all add: optional_def)

lemma TenderCreate_validate_eq:
  assumes "with_default OFFER status_validator b ''status'' = Some v_status"
    "required str_validator b ''item'' = Some v_item"
    "required str_validator b ''customer'' = Some v_customer"
    "required str_validator b ''tender_name'' = Some v_tender_name"
    "required (date_validator w) b ''start_date'' = Some v_start_date"
    "required (date_validator w) b ''expiry_date'' = Some v_expiry_date"
    "required (datetime_validator w) b ''due_date'' = Some v_due_date"
    "required (float_validator w) b ''deal_value'' = Some v_deal_value"
    "required priority_validator b ''priority'' = Some v_priority"
    "required str_validator b ''assigned_sales_rep'' = Some v_assigned_sales_rep"
  shows "TenderCreate_validate w b =
           Some \<lparr>TenderCreate.item = v_item, customer = v_customer,
                  tender_name = v_tender_name, status = v_status, start_date = v_start_date,
                  expiry_date = v_expiry_date, due_date = v_due_date,
                  deal_value = v_deal_value, priority = v_priority,
                  assigned_sales_rep = v_assigned_sales_rep\<rparr>"
  by (simp add: TenderCreate_validate_def assms)

text \<open>
  C7. A create body without a \<open>status\<close> key whose nine other fields are present and
  valid (strings, a number, an enumerated priority, and dates in ISO-8601 form) is
  accepted; the record returned has status \<open>OFFER\<close> and the stored document has
  \<open>"Offer"\<close>.
\<close>

theorem status_defaults_to_offer:
  assumes "body ''status'' = None"
    and "body ''item'' = Some (VStr v_item)"
    and "body ''customer'' = Some (VStr v_customer)"
    and "body ''tender_name'' = Some (VStr v_tender_name)"
    and "body ''start_date'' = Some (VStr (isoformat_date v_start_date))" "date_ok v_start_date"
    and "body ''expiry_date'' = Some (VStr (isoformat_date v_expiry_date))" "date_ok v_expiry_date"
    and "body ''due_date'' = Some (VStr (isoformat_datetime v_due_date))" "datetime_ok v_due_date"
    and "body ''deal_value'' = Some (VFloat v_deal_value)"
    and "body ''priority'' = Some (VStr (priority_value v_priority))"
    and "body ''assigned_sales_rep'' = Some (VStr v_assigned_sales_rep)"
  shows "\<exists>t w'. post_tenders w body = (Inr t, w')
         \<and> Tender.status t = OFFER
         \<and> last (tenders w') ''status'' = Some (VStr ''Offer'')"
proof -
  let ?p = "\<lparr>TenderCreate.item = v_item, customer = v_customer,
             tender_name = v_tender_name, status = OFFER, start_date = v_start_date,
             expiry_date = v_expiry_date, due_date = v_due_date,
             deal_value = v_deal_value, priority = v_priority,
             assigned_sales_rep = v_assigned_sales_rep\<rparr>"
  have v: "TenderCreate_validate w body = Some ?p"
    using assms
    by (intro TenderCreate_validate_eq)
       (simp_all add: with_default_def required_def parse_date_isoformat_date
          parse_datetime_isoformat_datetime PriorityLevel_of_value)
  have ok: "TenderCreate_ok ?p"
    using assms by (simp add: TenderCreate_ok_def)
  have s: "stored_doc (new_tender w ?p) ''status'' = Some (VStr ''Offer'')"
    by (simp add: stored_doc_def Tender_dict_def new_tender_def)
  show ?thesis
    using s by (simp add: post_tenders_def v create_tender_eq [OF ok]) (simp add: new_tender_def)
qed

lemma sample_body_dates:
  "sample_body ''start_date'' = Some (VStr (isoformat_date (TenderCreate.start_date sample_create)))"
  "sample_body ''expiry_date'' = Some (VStr (isoformat_date (TenderCreate.expiry_date sample_create)))"
  "sample_body ''due_date'' = Some (VStr (isoformat_datetime (TenderCreate.due_date sample_create)))"
  unfolding sample_isoformat by (simp_all add: sample_body_def)

theorem status_defaults_to_offer_witness:
  "sample_body ''status'' = None
   \<and> (\<exists>t w'. post_tenders sample_world sample_body = (Inr t, w')
         \<and> Tender.status t = OFFER
         \<and> last (tenders w') ''status'' = Some (VStr ''Offer''))"
proof -
  have n: "sample_body ''status'' = None" by (simp add: sample_body_def)
  have ok: "date_ok (TenderCreate.start_date sample_create)"
    "date_ok (TenderCreate.expiry_date sample_create)"
    "datetime_ok (TenderCreate.due_date sample_create)"
    using sample_create_ok by (simp_all add: TenderCreate_ok_def)
  have "\<exists>t w'. post_tenders sample_world sample_body = (Inr t, w')
         \<and> Tender.status t = OFFER
         \<and> last (tenders w') ''status'' = Some (VStr ''Offer'')"
    by (rule status_defaults_to_offer [where v_priority = MEDIUM, OF n _ _ _
          sample_body_dates(1) ok(1) sample_body_dates(2) ok(2) sample_body_dates(3) ok(3)])
       (simp_all add: sample_body_def)
  with n show ?thesis by simp
qed

section \<open>What constructing a record reads and consumes\<close>

lemma default_factory_uuid4:
  "default_factory uuid4 f d k w =
     (case d k of None \<Rightarrow> (Some (uuid4_src w (uuid4_calls w)), w\<lparr>uuid4_calls := Suc (uuid4_calls w)\<rparr>)
               | Some v \<Rightarrow> (f v, w))"
  by (simp add: default_factory_def uuid4_def split: option.splits)

lemma default_factory_utcnow:
  "default_factory utcnow f d k w =
     (case d k of None \<Rightarrow> (Some (utcnow_src w (utcnow_calls w)), w\<lparr>utcnow_calls := Suc (utcnow_calls w)\<rparr>)
               | Some v \<Rightarrow> (f v, w))"
  by (simp add: default_factory_def utcnow_def split: option.splits)

lemma Tender_init_world:
  "snd (Tender_init w d) =
     w\<lparr>uuid4_calls := uuid4_calls w + (if d ''id'' = None then 1 else 0),
       utcnow_calls := utcnow_calls w + (if d ''created_at'' = None then 1 else 0)
                         + (if d ''updated_at'' = None then 1 else 0)\<rparr>"
  by (cases "d ''id''"; cases "d ''created_at''"; cases "d ''updated_at''")
     (simp_all add: Tender_init_def default_factory_uuid4 default_factory_utcnow)

lemma Tender_init_tenders [simp]: "tenders (snd (Tender_init w d)) = tenders w"
  by (simp add: Tender_init_world)

lemma Tender_init_InrD:
  assumes "Tender_init w d = (Inr t, w')"
  shows "fst (default_factory uuid4 str_validator d ''id'' w) = Some (id' t)
       \<and> required str_validator d ''customer'' = Some (Tender.customer t)
       \<and> required status_validator d ''status'' = Some (Tender.status t)
       \<and> required priority_validator d ''priority'' = Some (Tender.priority t)"
  using assms
  by (auto simp: Tender_init_def case_prod_beta Let_def bind_eq_Some_conv split: option.split_asm)

lemma required_str_Some: "required str_validator d k = Some s \<longleftrightarrow> d k = Some (VStr s)"
  by (cases "d k"; cases "the (d k)") (simp_all add: required_def)

lemma required_status_Some:
  "required status_validator d k = Some m \<longleftrightarrow> (\<exists>s. d k = Some (VStr s) \<and> TenderStatus_of s = Some m)"
  by (cases "d k"; cases "the (d k)") (simp_all add: required_def)

lemma required_priority_Some:
  "required priority_validator d k = Some m \<longleftrightarrow> (\<exists>s. d k = Some (VStr s) \<and> PriorityLevel_of s = Some m)"
  by (cases "d k"; cases "the (d k)") (simp_all add: required_def)

lemma Tender_init_Inr:
  assumes "Tender_init w d = (Inr t, w')"
  shows "(case d ''id'' of None \<Rightarrow> id' t = uuid4_src w (uuid4_calls w) | Some v \<Rightarrow> v = VStr (id' t))"
    and "d ''customer'' = Some (VStr (Tender.customer t))"
    and "d ''status'' = Some (VStr (status_value (Tender.status t)))"
    and "d ''priority'' = Some (VStr (priority_value (Tender.priority t)))"
proof -
  note D = Tender_init_InrD [OF assms]
  from D show "(case d ''id'' of None \<Rightarrow> id' t = uuid4_src w (uuid4_calls w) | Some v \<Rightarrow> v = VStr (id' t))"
    by (cases "d ''id''"; cases "the (d ''id'')") (auto simp: default_factory_uuid4)
  from D show "d ''customer'' = Some (VStr (Tender.customer t))"
    by (simp add: required_str_Some)
  from D show "d ''status'' = Some (VStr (status_value (Tender.status t)))"
    by (auto simp: required_status_Some dest: TenderStatus_of_Some)
  from D show "d ''priority'' = Some (VStr (priority_value (Tender.priority t)))"
    by (auto simp: required_priority_Some dest: PriorityLevel_of_Some)
qed

section \<open>Update\<close>

lemma update_one_found:
  assumes "find_one q ds = Some d"
  shows "\<exists>ds1 ds2. ds = ds1 @ d # ds2 \<and> (\<forall>x \<in> set ds1. \<not> matches q x) \<and> matches q d
           \<and> update_one q u ds = (1, ds1 @ (d ++ u) # ds2)"
  using assms
proof (induction ds)
  case Nil
  then show ?case by (simp add: find_one_def)
next
  case (Cons x xs)
  show ?case
  proof (cases "matches q x")
    case True
    with Cons.prems have "x = d" by (simp add: find_one_def)
    with True show ?thesis by (intro exI [of _ "[]"] exI [of _ xs]) simp
  next
    case False
    with Cons.prems have "find_one q xs = Some d" by (simp add: find_one_def)
    from Cons.IH [OF this] obtain ds1 ds2 where
      "xs = ds1 @ d # ds2" "\<forall>x \<in> set ds1. \<not> matches q x" "matches q d"
      "update_one q u xs = (1, ds1 @ (d ++ u) # ds2)" by blast
    with False show ?thesis
      by (intro exI [of _ "x # ds1"] exI [of _ ds2]) simp
  qed
qed

lemma find_one_middle:
  "\<forall>x \<in> set ds1. \<not> matches q x \<Longrightarrow> matches q d \<Longrightarrow> find_one q (ds1 @ d # ds2) = Some d"
  by (induction ds1) (auto simp: find_one_def)

lemma update_tender_tenders:
  "tenders (snd (update_tender w i u))
     = snd (update_one (by_id i) (set_fields u (utcnow_src w (utcnow_calls w))) (tenders w))"
  by (simp add: update_tender_def update_data_of_eq utcnow_def set_fields_def case_prod_beta
      Let_def split: option.splits)

lemma set_fields_simps:
  "set_fields u now ''id'' = None"
  "set_fields u now ''created_at'' = None"
  "set_fields u now ''updated_at'' = Some (VDateTime now)"
  "set_fields u now ''item'' = map_option VStr (TenderUpdate.item u)"
  "set_fields u now ''customer'' = map_option VStr (TenderUpdate.customer u)"
  "set_fields u now ''tender_name'' = map_option VStr (TenderUpdate.tender_name u)"
  "set_fields u now ''status'' = map_option (\<lambda>s. VStr (status_value s)) (TenderUpdate.status u)"
  "set_fields u now ''start_date'' = map_option (\<lambda>d. VStr (isoformat_date d)) (TenderUpdate.start_date u)"
  "set_fields u now ''expiry_date'' = map_option (\<lambda>d. VStr (isoformat_date d)) (TenderUpdate.expiry_date u)"
  "set_fields u now ''due_date'' = map_option (\<lambda>t. VStr (isoformat_datetime t)) (TenderUpdate.due_date u)"
  "set_fields u now ''deal_value'' = map_option VFloat (TenderUpdate.deal_value u)"
  "set_fields u now ''priority'' = map_option (\<lambda>p. VStr (priority_value p)) (TenderUpdate.priority u)"
  "set_fields u now ''assigned_sales_rep'' = map_option VStr (TenderUpdate.assigned_sales_rep u)"
  by (simp_all add: set_fields_def update_fields_def)

lemma map_add_lookup: "(d ++ u) k = (case u k of None \<Rightarrow> d k | Some v \<Rightarrow> Some v)"
  by (simp add: map_add_def)

lemma represents_update:
  assumes "represents d t"
  shows "represents (d ++ set_fields u now) (apply_update u now t)"
  using assms unfolding represents_def map_add_lookup set_fields_simps apply_update_def
  by (intro conjI) (simp_all split: option.splits)

lemma Tender_ok_update: "Tender_ok t \<Longrightarrow> TenderUpdate_ok u \<Longrightarrow> Tender_ok (apply_update u now t)"
  by (auto simp: Tender_ok_def TenderUpdate_ok_def apply_update_def split: option.splits)

lemma update_tender_found:
  assumes "find_one (by_id i) (tenders w) = Some d" "represents d t" "Tender_ok t"
    "TenderUpdate_ok u"
  shows "\<exists>ds1 ds2.
           tenders w = ds1 @ d # ds2
         \<and> update_tender w i u =
             (Inr (apply_update u (utcnow_src w (utcnow_calls w)) t),
              w\<lparr>utcnow_calls := Suc (utcnow_calls w),
                tenders := ds1 @ (d ++ set_fields u (utcnow_src w (utcnow_calls w))) # ds2\<rparr>)"
proof -
  let ?now = "utcnow_src w (utcnow_calls w)"
  let ?u = "set_fields u ?now"
  let ?d' = "d ++ ?u"
  let ?t' = "apply_update u ?now t"
  from update_one_found [OF assms(1), of ?u] obtain ds1 ds2 where
    s: "tenders w = ds1 @ d # ds2" and n: "\<forall>x \<in> set ds1. \<not> matches (by_id i) x"
    and m: "matches (by_id i) d" and up: "update_one (by_id i) ?u (tenders w) = (1, ds1 @ ?d' # ds2)"
    by blast
  let ?w2 = "w\<lparr>utcnow_calls := Suc (utcnow_calls w), tenders := ds1 @ ?d' # ds2\<rparr>"
  have r: "represents ?d' ?t'" by (rule represents_update [OF assms(2)])
  have ok: "Tender_ok ?t'" by (rule Tender_ok_update [OF assms(3,4)])
  from m have "matches (by_id i) ?d'"
    by (simp add: matches_by_id map_add_lookup set_fields_simps)
  with n have f: "find_one (by_id i) (ds1 @ ?d' # ds2) = Some ?d'"
    by (rule find_one_middle)
  from load_represented [OF r ok, of ?w2] obtain d'' where
    l: "parse_dates ?d' = Some d''" "Tender_init ?w2 d'' = (Inr ?t', ?w2)" by blast
  have "update_tender w i u = (Inr ?t', ?w2)"
    using up f l
    by (simp add: update_tender_def update_data_of_eq utcnow_def set_fields_def)
  with s show ?thesis by blast
qed

text \<open>
  C2. For a stored record of an existing tender and a partial update payload, the update
  returns the record in which exactly the fields given by the payload have the payload's
  values and \<open>updated_at\<close> is the current reading of the clock; \<open>id\<close>,
  \<open>created_at\<close> and every other field are those of the record before. The stored
  document holds that record afterwards, every key outside the partial field-set and
  \<open>updated_at\<close> keeps its value, and the other documents of the collection stay.
\<close>

theorem update_changes_only_given_fields:
  assumes "find_one (by_id tender_id) (tenders w) = Some d"
    and "represents d t" and "Tender_ok t" and "TenderUpdate_ok u"
  shows "\<exists>ds1 ds2 d' w'.
           update_tender w tender_id u
             = (Inr (apply_update u (utcnow_src w (utcnow_calls w)) t), w')
         \<and> tenders w = ds1 @ d # ds2 \<and> tenders w' = ds1 @ d' # ds2
         \<and> represents d' (apply_update u (utcnow_src w (utcnow_calls w)) t)
         \<and> (\<forall>k v. update_fields u k = Some v \<longrightarrow> d' k = Some v)
         \<and> d' ''updated_at'' = Some (VDateTime (utcnow_src w (utcnow_calls w)))
         \<and> (\<forall>k. k \<notin> dom (update_fields u) \<and> k \<noteq> ''updated_at'' \<longrightarrow> d' k = d k)
         \<and> id' (apply_update u (utcnow_src w (utcnow_calls w)) t) = id' t
         \<and> created_at (apply_update u (utcnow_src w (utcnow_calls w)) t) = created_at t"
proof -
  let ?now = "utcnow_src w (utcnow_calls w)"
  let ?d' = "d ++ set_fields u ?now"
  from update_tender_found [OF assms] obtain ds1 ds2 where
    s: "tenders w = ds1 @ d # ds2" and
    r: "update_tender w tender_id u =
          (Inr (apply_update u ?now t),
           w\<lparr>utcnow_calls := Suc (utcnow_calls w), tenders := ds1 @ ?d' # ds2\<rparr>)"
    by blast
  have 1: "represents ?d' (apply_update u ?now t)"
    by (rule represents_update [OF assms(2)])
  have u: "update_fields u ''updated_at'' = None" by (simp add: update_fields_def)
  have 2: "\<forall>k v. update_fields u k = Some v \<longrightarrow> ?d' k = Some v"
    using u by (auto simp: map_add_lookup set_fields_def)
  have 3: "?d' ''updated_at'' = Some (VDateTime ?now)"
    by (simp add: map_add_lookup set_fields_def)
  have 4: "\<forall>k. k \<notin> dom (update_fields u) \<and> k \<noteq> ''updated_at'' \<longrightarrow> ?d' k = d k"
    by (auto simp: map_add_lookup set_fields_def dom_def)
  have 5: "id' (apply_update u ?now t) = id' t" "created_at (apply_update u ?now t) = created_at t"
    by (simp_all add: apply_update_def)
  show ?thesis
    apply (rule exI [of _ ds1], rule exI [of _ ds2], rule exI [of _ ?d'])
    apply (rule exI [of _ "w\<lparr>utcnow_calls := Suc (utcnow_calls w), tenders := ds1 @ ?d' # ds2\<rparr>"])
    using s r 1 2 3 4 5 apply simp
    done
qed

lemma sample_tender_ok: "Tender_ok sample_tender"
  unfolding sample_tender_def by (rule Tender_ok_new [OF sample_create_ok])

lemma sample_update_ok: "TenderUpdate_ok sample_update"
  by (simp add: TenderUpdate_ok_def sample_update_def)

lemma sample_find_one:
  "find_one (by_id ''1b4e28ba'') (tenders sample_world) = Some (stored_doc sample_tender)"
  by (simp add: find_one_def matches_by_id sample_world_def stored_doc_def Tender_dict_def
      sample_tender_def new_tender_def empty_world_def sample_uuids_def)

theorem update_changes_only_given_fields_witness:
  "\<exists>d' w'.
     update_tender sample_world ''1b4e28ba'' sample_update
       = (Inr (sample_tender\<lparr>Tender.priority := HIGH, updated_at := sample_clock 2\<rparr>), w')
   \<and> tenders w' = [d']
   \<and> d' ''priority'' = Some (VStr ''High'')
   \<and> d' ''updated_at'' = Some (VDateTime (sample_clock 2))
   \<and> d' ''id'' = stored_doc sample_tender ''id''
   \<and> d' ''customer'' = stored_doc sample_tender ''customer''
   \<and> d' ''created_at'' = stored_doc sample_tender ''created_at''"
proof -
  have a: "apply_update sample_update (sample_clock 2) sample_tender
           = sample_tender\<lparr>Tender.priority := HIGH, updated_at := sample_clock 2\<rparr>"
    by (simp add: apply_update_def sample_update_def)
  have c: "utcnow_src sample_world (utcnow_calls sample_world) = sample_clock 2"
    by (simp add: sample_world_def)
  have f: "update_fields sample_update ''priority'' = Some (VStr ''High'')"
    "''id'' \<notin> dom (update_fields sample_update)"
    "''customer'' \<notin> dom (update_fields sample_update)"
    "''created_at'' \<notin> dom (update_fields sample_update)"
    by (simp_all add: update_fields_def sample_update_def dom_def)
  from update_changes_only_given_fields
         [OF sample_find_one represents_stored_doc sample_tender_ok sample_update_ok]
  obtain ds1 ds2 d' w' where
    r: "update_tender sample_world ''1b4e28ba'' sample_update
          = (Inr (apply_update sample_update
                    (utcnow_src sample_world (utcnow_calls sample_world)) sample_tender), w')"
    and s: "tenders sample_world = ds1 @ stored_doc sample_tender # ds2"
      "tenders w' = ds1 @ d' # ds2"
    and p: "\<forall>k v. update_fields sample_update k = Some v \<longrightarrow> d' k = Some v"
    and n: "d' ''updated_at'' = Some (VDateTime (utcnow_src sample_world (utcnow_calls sample_world)))"
    and k: "\<forall>k. k \<notin> dom (update_fields sample_update) \<and> k \<noteq> ''updated_at''
              \<longrightarrow> d' k = stored_doc sample_tender k"
    by blast
  from s(1) have "ds1 = [] \<and> ds2 = []"
    by (simp add: sample_world_def append_eq_Cons_conv Cons_eq_append_conv)
  with s(2) have t: "tenders w' = [d']" by simp
  from p f(1) have 1: "d' ''priority'' = Some (VStr ''High'')" by blast
  from k f(2-4) have 2: "d' ''id'' = stored_doc sample_tender ''id''"
    "d' ''customer'' = stored_doc sample_tender ''customer''"
    "d' ''created_at'' = stored_doc sample_tender ''created_at''"
    by simp_all
  from r t 1 2 n show ?thesis
    unfolding c a by blast
qed

section \<open>Null fields of an update\<close>

lemma TenderUpdate_validate_SomeD:
  assumes "TenderUpdate_validate w b = Some u"
  shows "optional str_validator b ''item'' = Some (TenderUpdate.item u)"
    "optional str_validator b ''customer'' = Some (TenderUpdate.customer u)"
    "optional str_validator b ''tender_name'' = Some (TenderUpdate.tender_name u)"
    "optional status_validator b ''status'' = Some (TenderUpdate.status u)"
    "optional (date_validator w) b ''start_date'' = Some (TenderUpdate.start_date u)"
    "optional (date_validator w) b ''expiry_date'' = Some (TenderUpdate.expiry_date u)"
    "optional (datetime_validator w) b ''due_date'' = Some (TenderUpdate.due_date u)"
    "optional (float_validator w) b ''deal_value'' = Some (TenderUpdate.deal_value u)"
    "optional priority_validator b ''priority'' = Some (TenderUpdate.priority u)"
    "optional str_validator b ''assigned_sales_rep'' = Some (TenderUpdate.assigned_sales_rep u)"
  using assms by (auto simp: TenderUpdate_validate_def bind_eq_Some_conv)

lemma optional_null: "d k = Some VNone \<Longrightarrow> optional f d k = Some x \<Longrightarrow> x = None"
  by (simp add: optional_def)

lemma update_fields_not_null: "update_fields u k \<noteq> Some VNone"
  by (auto simp: update_fields_def)

lemma set_fields_not_null: "set_fields u now k \<noteq> Some VNone"
  using update_fields_not_null [of u k] by (auto simp: set_fields_def)

lemma update_one_rel:
  "list_all2 (\<lambda>d d'. d' = d \<or> d' = d ++ u) ds (snd (update_one q u ds))"
  by (induction ds) (auto simp: case_prod_beta list_all2_same list.rel_refl)

lemma put_tender_tenders:
  "tenders (snd (put_tender w i body)) =
     (case TenderUpdate_validate w body of
        None \<Rightarrow> tenders w
      | Some u \<Rightarrow> snd (update_one (by_id i) (set_fields u (utcnow_src w (utcnow_calls w))) (tenders w)))"
  by (simp add: put_tender_def update_tender_tenders split: option.splits)


lemma validated_null_field:
  assumes "TenderUpdate_validate w body = Some u" "body k = Some VNone"
    "k \<in> {''item'', ''customer'', ''tender_name'', ''status'', ''start_date'', ''expiry_date'',
          ''due_date'', ''deal_value'', ''priority'', ''assigned_sales_rep''}"
  shows "update_fields u k = None"
proof -
  note D = TenderUpdate_validate_SomeD [OF assms(1)]
  have 1: "TenderUpdate.item u = None" if "k = ''item''"
    using optional_null [of body k str_validator] assms(2) D(1) that by simp
  have 2: "TenderUpdate.customer u = None" if "k = ''customer''"
    using optional_null [of body k str_validator] assms(2) D(2) that by simp
  have 3: "TenderUpdate.tender_name u = None" if "k = ''tender_name''"
    using optional_null [of body k str_validator] assms(2) D(3) that by simp
  have 4: "TenderUpdate.status u = None" if "k = ''status''"
    using optional_null [of body k status_validator] assms(2) D(4) that by simp
  have 5: "TenderUpdate.start_date u = None" if "k = ''start_date''"
    using optional_null [of body k "date_validator w"] assms(2) D(5) that by simp
  have 6: "TenderUpdate.expiry_date u = None" if "k = ''expiry_date''"
    using optional_null [of body k "date_validator w"] assms(2) D(6) that by simp
  have 7: "TenderUpdate.due_date u = None" if "k = ''due_date''"
    using optional_null [of body k "datetime_validator w"] assms(2) D(7) that by simp
  have 8: "TenderUpdate.deal_value u = None" if "k = ''deal_value''"
    using optional_null [of body k "float_validator w"] assms(2) D(8) that by simp
  have 9: "TenderUpdate.priority u = None" if "k = ''priority''"
    using optional_null [of body k priority_validator] assms(2) D(9) that by simp
  have 10: "TenderUpdate.assigned_sales_rep u = None" if "k = ''assigned_sales_rep''"
    using optional_null [of body k str_validator] assms(2) D(10) that by simp
  from assms(3) show ?thesis
    by (elim insertE emptyE) (simp_all add: update_fields_def 1 2 3 4 5 6 7 8 9 10)
qed

lemma list_all2_map_eq: "list_all2 (\<lambda>x y. f y = f x) xs ys \<Longrightarrow> map f ys = map f xs"
  by (induction rule: list_all2_induct) simp_all

text \<open>
  C10. A field of an update body that is present with the value null is not in the partial
  field-set that is written (which holds no null at all), and the stored value of that field
  is the same after the request, in every document. Whatever the body, a request leaves
  each field of each document as it was or gives it a value that is not null.
\<close>

theorem null_fields_are_discarded:
  assumes "k \<in> {''item'', ''customer'', ''tender_name'', ''status'', ''start_date'',
               ''expiry_date'', ''due_date'', ''deal_value'', ''priority'',
               ''assigned_sales_rep''}"
    and "body k = Some VNone"
  shows "(\<forall>u ud. TenderUpdate_validate w body = Some u \<and> update_data_of u = Some ud
            \<longrightarrow> k \<notin> dom ud \<and> VNone \<notin> ran ud)
       \<and> map (\<lambda>d. d k) (tenders (snd (put_tender w tender_id body)))
           = map (\<lambda>d. d k) (tenders w)
       \<and> list_all2 (\<lambda>d d'. \<forall>f. d' f = d f \<or> (\<exists>v. d' f = Some v \<and> v \<noteq> VNone))
           (tenders w) (tenders (snd (put_tender w tender_id body)))"
proof (intro conjI allI impI)
  fix u ud
  assume a: "TenderUpdate_validate w body = Some u \<and> update_data_of u = Some ud"
  then have ud: "ud = update_fields u" by (simp add: update_data_of_eq)
  from a have "TenderUpdate_validate w body = Some u" by simp
  from validated_null_field [OF this assms(2,1)] show "k \<notin> dom ud"
    by (auto simp: ud dom_def)
  show "VNone \<notin> ran ud"
    using update_fields_not_null [of u] by (auto simp: ud ran_def)
next
  from assms(1) have ku: "k \<noteq> ''updated_at''" by auto
  show "map (\<lambda>d. d k) (tenders (snd (put_tender w tender_id body))) = map (\<lambda>d. d k) (tenders w)"
  proof (cases "TenderUpdate_validate w body")
    case None
    then show ?thesis by (simp add: put_tender_tenders)
  next
    case (Some u)
    let ?s = "set_fields u (utcnow_src w (utcnow_calls w))"
    from validated_null_field [OF Some assms(2,1)] ku have n: "?s k = None"
      by (simp add: set_fields_def)
    have "list_all2 (\<lambda>d d'. d' k = d k) (tenders w) (snd (update_one (by_id tender_id) ?s (tenders w)))"
      by (rule list_all2_mono [OF update_one_rel]) (auto simp: map_add_lookup n)
    then show ?thesis
      by (simp add: put_tender_tenders Some list_all2_map_eq)
  qed
next
  show "list_all2 (\<lambda>d d'. \<forall>f. d' f = d f \<or> (\<exists>v. d' f = Some v \<and> v \<noteq> VNone))
          (tenders w) (tenders (snd (put_tender w tender_id body)))"
  proof (cases "TenderUpdate_validate w body")
    case None
    then show ?thesis by (simp add: put_tender_tenders list.rel_refl)
  next
    case (Some u)
    let ?s = "set_fields u (utcnow_src w (utcnow_calls w))"
    have "list_all2 (\<lambda>d d'. \<forall>f. d' f = d f \<or> (\<exists>v. d' f = Some v \<and> v \<noteq> VNone))
            (tenders w) (snd (update_one (by_id tender_id) ?s (tenders w)))"
    proof (rule list_all2_mono [OF update_one_rel])
      fix d d' :: document
      assume "d' = d \<or> d' = d ++ ?s"
      then show "\<forall>f. d' f = d f \<or> (\<exists>v. d' f = Some v \<and> v \<noteq> VNone)"
        using set_fields_not_null [of u "utcnow_src w (utcnow_calls w)"]
        by (auto simp: map_add_lookup split: option.splits)
    qed
    then show ?thesis by (simp add: put_tender_tenders Some)
  qed
qed


lemma null_body_validate: "TenderUpdate_validate w null_body = Some sample_update"
  by (simp add: TenderUpdate_validate_def optional_def null_body_def sample_update_def
      PriorityLevel_of_def PriorityLevel_members_def)

theorem null_fields_are_discarded_witness:
  "null_body ''item'' = Some VNone
   \<and> map (\<lambda>d. d ''item'') (tenders sample_world) = [Some (VStr ''Pumps'')]
   \<and> map (\<lambda>d. d ''item'') (tenders (snd (put_tender sample_world ''1b4e28ba'' null_body)))
       = [Some (VStr ''Pumps'')]
   \<and> map (\<lambda>d. d ''priority'') (tenders (snd (put_tender sample_world ''1b4e28ba'' null_body)))
       = [Some (VStr ''High'')]"
proof -
  have n: "null_body ''item'' = Some VNone" by (simp add: null_body_def)
  have i: "map (\<lambda>d. d ''item'') (tenders sample_world) = [Some (VStr ''Pumps'')]"
    by (simp add: sample_world_def stored_doc_def Tender_dict_def sample_tender_def
        new_tender_def sample_create_def)
  have m: "matches (by_id ''1b4e28ba'') (stored_doc sample_tender)"
    by (simp add: matches_by_id stored_doc_def Tender_dict_def sample_tender_def
        new_tender_def empty_world_def sample_uuids_def)
  have p: "map (\<lambda>d. d ''priority'') (tenders (snd (put_tender sample_world ''1b4e28ba'' null_body)))
             = [Some (VStr ''High'')]"
    using m
    by (simp add: put_tender_tenders null_body_validate sample_world_def map_add_lookup
        set_fields_simps sample_update_def)
  from null_fields_are_discarded [of "''item''" null_body sample_world "''1b4e28ba''", OF _ n]
  have "map (\<lambda>d. d ''item'') (tenders (snd (put_tender sample_world ''1b4e28ba'' null_body)))
          = map (\<lambda>d. d ''item'') (tenders sample_world)"
    by simp
  with n i p show ?thesis by simp
qed

section \<open>Enumerated fields of a request body\<close>

lemma optional_null_absent:
  "d k = Some VNone \<Longrightarrow> optional f (d(k := None)) k' = optional f d k'"
  by (simp add: optional_def)

lemma TenderUpdate_validate_null_absent:
  "b k = Some VNone \<Longrightarrow> TenderUpdate_validate w (b(k := None)) = TenderUpdate_validate w b"
  by (simp add: TenderUpdate_validate_def optional_null_absent)

lemma null_status_body_validate: "TenderUpdate_validate w null_status_body = Some empty_update"
  by (simp add: TenderUpdate_validate_def optional_def null_status_body_def empty_update_def)

lemma empty_update_ok: "TenderUpdate_ok empty_update"
  by (simp add: TenderUpdate_ok_def empty_update_def)

text \<open>
  An update body whose \<open>status\<close> is null. Null is none of the enumerated literals, yet
  the request is not answered with the validation error: the handler runs, returns the
  stored record with a new \<open>updated_at\<close>, and rewrites the stored document.
\<close>

theorem null_status_update_accepted:
  "null_status_body ''status'' = Some VNone
   \<and> fst (put_tender sample_world ''1b4e28ba'' null_status_body)
       = Inr (sample_tender\<lparr>updated_at := sample_clock 2\<rparr>)
   \<and> map (\<lambda>d. d ''updated_at'') (tenders sample_world) = [Some (VDateTime (sample_clock 1))]
   \<and> map (\<lambda>d. d ''updated_at'')
        (tenders (snd (put_tender sample_world ''1b4e28ba'' null_status_body)))
       = [Some (VDateTime (sample_clock 2))]
   \<and> sample_clock 1 \<noteq> sample_clock 2"
proof -
  have n: "null_status_body ''status'' = Some VNone" by (simp add: null_status_body_def)
  have c: "utcnow_src sample_world (utcnow_calls sample_world) = sample_clock 2"
    by (simp add: sample_world_def)
  have a: "apply_update empty_update (sample_clock 2) sample_tender
           = sample_tender\<lparr>updated_at := sample_clock 2\<rparr>"
    by (simp add: apply_update_def empty_update_def)
  from update_tender_found [OF sample_find_one represents_stored_doc sample_tender_ok
      empty_update_ok]
  have r: "fst (update_tender sample_world ''1b4e28ba'' empty_update)
             = Inr (sample_tender\<lparr>updated_at := sample_clock 2\<rparr>)"
    unfolding c a by auto
  have m: "matches (by_id ''1b4e28ba'') (stored_doc sample_tender)"
    by (simp add: matches_by_id stored_doc_def Tender_dict_def sample_tender_def
        new_tender_def empty_world_def sample_uuids_def)
  have o: "map (\<lambda>d. d ''updated_at'') (tenders sample_world) = [Some (VDateTime (sample_clock 1))]"
    by (simp add: sample_world_def stored_doc_def Tender_dict_def sample_tender_def
        new_tender_def empty_world_def)
  have t: "map (\<lambda>d. d ''updated_at'')
             (tenders (snd (put_tender sample_world ''1b4e28ba'' null_status_body)))
           = [Some (VDateTime (sample_clock 2))]"
    using m
    by (simp add: put_tender_tenders null_status_body_validate sample_world_def map_add_lookup
        set_fields_simps)
  have d: "sample_clock 1 \<noteq> sample_clock 2" by (simp add: sample_clock_def)
  from n r o t d show ?thesis
    by (simp add: put_tender_def null_status_body_validate)
qed

text \<open>
  C3, as amended. A create body whose \<open>status\<close> or \<open>priority\<close> is present with a value
  that is none of the enumerated literals, null included, is answered with the validation
  error, HTTP 422, and so is an update body whose \<open>status\<close> or \<open>priority\<close> is present
  with such a value other than null; the handler does not run, so the world after the
  request, and with it the collection, is the world before it. An update body whose
  \<open>status\<close> or \<open>priority\<close> is null is handled as the body without that field.
\<close>

theorem invalid_enum_rejected:
  assumes "body ''status'' = Some v
             \<and> v \<notin> {VStr ''Offer'', VStr ''Round 1'', VStr ''Round 2'', VStr ''Round 3'',
                      VStr ''Round 4'', VStr ''BAFO'', VStr ''Contract Signed'', VStr ''Won'',
                      VStr ''Lost''}
           \<or> body ''priority'' = Some v
             \<and> v \<notin> {VStr ''High'', VStr ''Medium'', VStr ''Low''}"
  shows "post_tenders w body = (Inl RequestValidationError, w)
       \<and> (v \<noteq> VNone \<longrightarrow> put_tender w tender_id body = (Inl RequestValidationError, w))
       \<and> (body ''status'' = Some VNone \<longrightarrow>
            put_tender w tender_id body = put_tender w tender_id (body(''status'' := None)))
       \<and> (body ''priority'' = Some VNone \<longrightarrow>
            put_tender w tender_id body = put_tender w tender_id (body(''priority'' := None)))
       \<and> status_code RequestValidationError = 422"
proof -
  have null: "put_tender w tender_id body = put_tender w tender_id (body(k := None))"
    if "body k = Some VNone" for k
    using that by (simp add: put_tender_def TenderUpdate_validate_null_absent)
  from assms
  have "TenderCreate_validate w body = None
        \<and> (v \<noteq> VNone \<longrightarrow> TenderUpdate_validate w body = None)"
  proof
    assume a: "body ''status'' = Some v
             \<and> v \<notin> {VStr ''Offer'', VStr ''Round 1'', VStr ''Round 2'', VStr ''Round 3'',
                      VStr ''Round 4'', VStr ''BAFO'', VStr ''Contract Signed'', VStr ''Won'',
                      VStr ''Lost''}"
    then have n: "status_validator v = None" by (intro status_validator_invalid) simp
    from a n have "with_default OFFER status_validator body ''status'' = None"
      by (simp add: with_default_def)
    then have 1: "TenderCreate_validate w body = None"
      by (rule TenderCreate_validate_status)
    have 2: "TenderUpdate_validate w body = None" if "v \<noteq> VNone"
      using a n that
      by (intro TenderUpdate_validate_status optional_invalid [of _ _ v]) simp_all
    from 1 2 show ?thesis by blast
  next
    assume a: "body ''priority'' = Some v
             \<and> v \<notin> {VStr ''High'', VStr ''Medium'', VStr ''Low''}"
    then have n: "priority_validator v = None" by (intro priority_validator_invalid) simp
    from a n have "required priority_validator body ''priority'' = None"
      by (simp add: required_def)
    then have 1: "TenderCreate_validate w body = None"
      by (rule TenderCreate_validate_priority)
    have 2: "TenderUpdate_validate w body = None" if "v \<noteq> VNone"
      using a n that
      by (intro TenderUpdate_validate_priority optional_invalid [of _ _ v]) simp_all
    from 1 2 show ?thesis by blast
  qed
  with null show ?thesis
    by (simp add: post_tenders_def put_tender_def)
qed

theorem invalid_enum_rejected_witness:
  "post_tenders sample_world (sample_body(''status'' \<mapsto> VStr ''InvalidStatus''))
     = (Inl RequestValidationError, sample_world)
   \<and> put_tender sample_world ''1b4e28ba'' (sample_body(''status'' \<mapsto> VStr ''InvalidStatus''))
     = (Inl RequestValidationError, sample_world)
   \<and> post_tenders sample_world (sample_body(''status'' \<mapsto> VNone))
     = (Inl RequestValidationError, sample_world)
   \<and> put_tender sample_world ''1b4e28ba'' (sample_body(''status'' \<mapsto> VNone))
     = put_tender sample_world ''1b4e28ba'' sample_body
   \<and> post_tenders sample_world [''priority'' \<mapsto> VNone]
     = (Inl RequestValidationError, sample_world)
   \<and> put_tender sample_world ''1b4e28ba'' [''priority'' \<mapsto> VNone]
     = put_tender sample_world ''1b4e28ba'' Map.empty
   \<and> status_code RequestValidationError = 422"
proof -
  have e: "sample_body(''status'' := None) = sample_body"
    by (rule ext) (simp add: sample_body_def)
  from invalid_enum_rejected [of "sample_body(''status'' \<mapsto> VStr ''InvalidStatus'')"
      "VStr ''InvalidStatus''" sample_world "''1b4e28ba''"]
    invalid_enum_rejected [of "sample_body(''status'' \<mapsto> VNone)" VNone sample_world
      "''1b4e28ba''"]
    invalid_enum_rejected [of "[''priority'' \<mapsto> VNone]" VNone sample_world "''1b4e28ba''"]
  show ?thesis
    by (simp add: e)
qed

section \<open>The list request\<close>

lemma matches_append: "matches (q1 @ q2) d \<longleftrightarrow> matches q1 d \<and> matches q2 d"
  by (simp add: matches_def)

lemma matches_build_query:
  "matches (build_query st pr cu) d \<longleftrightarrow>
     (case st of None \<Rightarrow> True | Some s \<Rightarrow> s = [] \<or> d ''status'' = Some (VStr s))
     \<and> (case pr of None \<Rightarrow> True | Some s \<Rightarrow> s = [] \<or> d ''priority'' = Some (VStr s))
     \<and> (case cu of None \<Rightarrow> True | Some s \<Rightarrow> s = [] \<or> d ''customer'' = Some (VStr s))"
  by (auto simp: build_query_def matches_append truthy_def matches_def split: option.splits)

lemma parse_date_key_other: "parse_date_key k d = Some d' \<Longrightarrow> k' \<noteq> k \<Longrightarrow> d' k' = d k'"
  by (auto simp: parse_date_key_def split: option.splits pyval.splits)

lemma parse_datetime_key_other: "parse_datetime_key k d = Some d' \<Longrightarrow> k' \<noteq> k \<Longrightarrow> d' k' = d k'"
  by (auto simp: parse_datetime_key_def split: option.splits pyval.splits)

lemma parse_dates_other:
  assumes "parse_dates d = Some d'" "k \<noteq> ''start_date''" "k \<noteq> ''expiry_date''" "k \<noteq> ''due_date''"
  shows "d' k = d k"
proof -
  from assms(1) obtain d1 d2 where "parse_date_key ''start_date'' d = Some d1"
    "parse_date_key ''expiry_date'' d1 = Some d2" "parse_datetime_key ''due_date'' d2 = Some d'"
    by (auto simp: parse_dates_def bind_eq_Some_conv)
  with assms(2-4) show ?thesis
    by (simp add: parse_date_key_other parse_datetime_key_other)
qed

lemma parse_dates_all_Some:
  "parse_dates_all ds = Some ds' \<Longrightarrow> list_all2 (\<lambda>d d'. parse_dates d = Some d') ds ds'"
  by (induction ds arbitrary: ds') (auto simp: bind_eq_Some_conv)

lemma Tender_init_all_Inr:
  "Tender_init_all w ds = (Inr ts, w') \<Longrightarrow>
     list_all2 (\<lambda>d t. \<exists>w1 w2. Tender_init w1 d = (Inr t, w2)) ds ts"
proof (induction ds arbitrary: w ts)
  case Nil
  then show ?case by simp
next
  case (Cons d ds)
  from Cons.prems obtain t w1 ts' where
    1: "Tender_init w d = (Inr t, w1)" and 2: "Tender_init_all w1 ds = (Inr ts', w')"
    and 3: "ts = t # ts'"
    by (auto split: prod.splits sum.splits)
  from Cons.IH [OF 2] 1 3 show ?case by auto
qed

lemma Tender_init_all_tenders: "tenders (snd (Tender_init_all w ds)) = tenders w"
proof (induction ds arbitrary: w)
  case Nil
  then show ?case by simp
next
  case (Cons d ds)
  have "tenders (snd (Tender_init w d)) = tenders w" by simp
  with Cons.IH [of "snd (Tender_init w d)"] show ?case
    by (cases "Tender_init w d") (auto split: sum.splits prod.splits)
qed

lemma get_tenders_tenders: "tenders (snd (get_tenders w st pr cu)) = tenders w"
  by (simp add: get_tenders_def Let_def Tender_init_all_tenders split: option.splits)

lemma get_tenders_sound:
  assumes "get_tenders w st pr cu = (Inr ts, w')"
  shows "length ts \<le> 1000 \<and> (\<forall>t \<in> set ts. selected st pr cu t)"
proof -
  let ?q = "build_query st pr cu"
  let ?found = "take 1000 (filter (matches ?q) (tenders w))"
  from assms obtain ds' where p: "parse_dates_all ?found = Some ds'"
    and i: "Tender_init_all w ds' = (Inr ts, w')"
    by (auto simp: get_tenders_def Let_def to_list_def find_docs_def split: option.splits)
  note P = parse_dates_all_Some [OF p] and I = Tender_init_all_Inr [OF i]
  have len: "length ts = length ?found"
    using list_all2_lengthD [OF P] list_all2_lengthD [OF I] by simp
  have "selected st pr cu t" if "t \<in> set ts" for t
  proof -
    from that obtain n where n: "n < length ts" "ts ! n = t" by (auto simp: in_set_conv_nth)
    define d where "d = ?found ! n"
    define d' where "d' = ds' ! n"
    from n len have nf: "n < length ?found" by simp
    have pd: "parse_dates d = Some d'"
      unfolding d_def d'_def by (rule list_all2_nthD [OF P nf])
    from list_all2_nthD2 [OF I n(1)] n(2) obtain w1 w2 where
      ti: "Tender_init w1 d' = (Inr t, w2)" unfolding d'_def by auto
    from nf have "d \<in> set ?found" unfolding d_def by (rule nth_mem)
    then have "d \<in> set (filter (matches ?q) (tenders w))" by (rule in_set_takeD)
    then have m: "matches ?q d" by simp
    have f: "d ''customer'' = Some (VStr (Tender.customer t))"
      "d ''status'' = Some (VStr (status_value (Tender.status t)))"
      "d ''priority'' = Some (VStr (priority_value (Tender.priority t)))"
      using Tender_init_Inr(2-4) [OF ti] parse_dates_other [OF pd] by simp_all
    from m show ?thesis
      unfolding matches_build_query selected_def f
      by (auto split: option.splits)
  qed
  with len show ?thesis by simp
qed


lemma parse_dates_represented:
  assumes "represents d t" "Tender_ok t"
  shows "\<exists>d'. parse_dates d = Some d' \<and> (\<forall>w. Tender_init w d' = (Inr t, w))"
proof -
  from load_represented [OF assms] obtain d' where p: "parse_dates d = Some d'" by blast
  have "Tender_init w d' = (Inr t, w)" for w
    using load_represented [OF assms, of w] p by auto
  with p show ?thesis by blast
qed

lemma load_all:
  "\<forall>t \<in> set rs. Tender_ok t \<Longrightarrow>
     \<exists>ds'. parse_dates_all (map stored_doc rs) = Some ds'
           \<and> (\<forall>w. Tender_init_all w ds' = (Inr rs, w))"
proof (induction rs)
  case Nil
  then show ?case by simp
next
  case (Cons t rs)
  from Cons.prems have "Tender_ok t" by simp
  from parse_dates_represented [OF represents_stored_doc this] obtain d' where
    1: "parse_dates (stored_doc t) = Some d'" "\<forall>w. Tender_init w d' = (Inr t, w)" by blast
  from Cons obtain ds' where
    2: "parse_dates_all (map stored_doc rs) = Some ds'" "\<forall>w. Tender_init_all w ds' = (Inr rs, w)"
    by auto
  from 1 2 show ?case by (intro exI [of _ "d' # ds'"]) simp
qed

lemma matches_stored_doc:
  "matches (build_query st pr cu) (stored_doc t) \<longleftrightarrow> selected st pr cu t"
proof -
  have f: "stored_doc t ''status'' = Some (VStr (status_value (Tender.status t)))"
    "stored_doc t ''priority'' = Some (VStr (priority_value (Tender.priority t)))"
    "stored_doc t ''customer'' = Some (VStr (Tender.customer t))"
    using represents_stored_doc [of t] by (simp_all add: represents_def)
  show ?thesis
    unfolding matches_build_query selected_def f by (auto split: option.splits)
qed

lemma get_tenders_wellformed:
  assumes "tenders w = map stored_doc rs" "\<forall>t \<in> set rs. Tender_ok t"
  shows "get_tenders w st pr cu = (Inr (take 1000 (filter (selected st pr cu) rs)), w)"
proof -
  let ?rs = "take 1000 (filter (selected st pr cu) rs)"
  have "filter (matches (build_query st pr cu)) (map stored_doc rs)
          = map stored_doc (filter (selected st pr cu) rs)"
    by (simp add: filter_map o_def matches_stored_doc)
  then have found: "to_list 1000 (find_docs (build_query st pr cu) (tenders w)) = map stored_doc ?rs"
    by (simp add: to_list_def find_docs_def assms(1) take_map)
  have "\<forall>t \<in> set ?rs. Tender_ok t"
    using assms(2) by (auto dest: in_set_takeD)
  from load_all [OF this] obtain ds' where
    "parse_dates_all (map stored_doc ?rs) = Some ds'" "\<forall>w. Tender_init_all w ds' = (Inr ?rs, w)"
    by blast
  then show ?thesis
    by (simp add: get_tenders_def Let_def found)
qed

lemma get_tenders_no_match:
  assumes "\<forall>d \<in> set (tenders w). \<not> matches (build_query st pr cu) d"
  shows "get_tenders w st pr cu = (Inr [], w)"
proof -
  from assms have "filter (matches (build_query st pr cu)) (tenders w) = []"
    by (simp add: filter_empty_conv)
  then show ?thesis
    by (simp add: get_tenders_def Let_def to_list_def find_docs_def)
qed

text \<open>
  A customer filter that is present but empty does not restrict the result: the stored
  record of customer \<open>Acme\<close> is returned.
\<close>

theorem empty_filter_not_applied:
  "get_tenders sample_world None None (Some []) = (Inr [sample_tender], sample_world)
   \<and> Tender.customer sample_tender \<noteq> []"
proof -
  have "get_tenders sample_world None None (Some [])
          = (Inr (take 1000 (filter (selected None None (Some [])) [sample_tender])), sample_world)"
    by (rule get_tenders_wellformed) (simp_all add: sample_world_def sample_tender_ok)
  then show ?thesis
    by (simp add: selected_def sample_tender_def new_tender_def sample_create_def)
qed

text \<open>
  C6, as amended. When a list request returns, it returns at most 1000 records and leaves
  the collection as it was, and every returned record equals, exactly and in all of them,
  each filter that was given and is not empty. When no document matches, the request returns
  the empty sequence and no error. On a collection of stored records the request returns,
  in the collection's order, the first 1000 records that the filters select.
\<close>

theorem list_applies_nonempty_filters:
  "(get_tenders w status' priority' customer' = (Inr ts, w') \<longrightarrow>
      length ts \<le> 1000
      \<and> tenders w' = tenders w
      \<and> (\<forall>t \<in> set ts.
            (\<forall>s. status' = Some s \<and> s \<noteq> [] \<longrightarrow> status_value (Tender.status t) = s)
            \<and> (\<forall>s. priority' = Some s \<and> s \<noteq> [] \<longrightarrow> priority_value (Tender.priority t) = s)
            \<and> (\<forall>s. customer' = Some s \<and> s \<noteq> [] \<longrightarrow> Tender.customer t = s)))
   \<and> ((\<forall>d \<in> set (tenders w). \<not> matches (build_query status' priority' customer') d) \<longrightarrow>
      get_tenders w status' priority' customer' = (Inr [], w))
   \<and> (tenders w = map stored_doc rs \<and> (\<forall>t \<in> set rs. Tender_ok t) \<longrightarrow>
      get_tenders w status' priority' customer'
        = (Inr (take 1000 (filter (selected status' priority' customer') rs)), w))"
proof (intro conjI impI)
  assume a: "get_tenders w status' priority' customer' = (Inr ts, w')"
  from get_tenders_sound [OF a] show "length ts \<le> 1000" by simp
  from get_tenders_tenders [of w status' priority' customer'] a
  show "tenders w' = tenders w" by simp
  from get_tenders_sound [OF a]
  show "\<forall>t \<in> set ts.
          (\<forall>s. status' = Some s \<and> s \<noteq> [] \<longrightarrow> status_value (Tender.status t) = s)
          \<and> (\<forall>s. priority' = Some s \<and> s \<noteq> [] \<longrightarrow> priority_value (Tender.priority t) = s)
          \<and> (\<forall>s. customer' = Some s \<and> s \<noteq> [] \<longrightarrow> Tender.customer t = s)"
    by (auto simp: selected_def)
next
  assume "\<forall>d \<in> set (tenders w). \<not> matches (build_query status' priority' customer') d"
  then show "get_tenders w status' priority' customer' = (Inr [], w)"
    by (rule get_tenders_no_match)
next
  assume "tenders w = map stored_doc rs \<and> (\<forall>t \<in> set rs. Tender_ok t)"
  then show "get_tenders w status' priority' customer'
        = (Inr (take 1000 (filter (selected status' priority' customer') rs)), w)"
    by (intro get_tenders_wellformed) simp_all
qed

theorem list_applies_nonempty_filters_witness:
  "get_tenders sample_world None None (Some ''Acme'') = (Inr [sample_tender], sample_world)
   \<and> Tender.customer sample_tender = ''Acme''
   \<and> get_tenders sample_world None None (Some ''Globex'') = (Inr [], sample_world)"
proof -
  have w: "tenders sample_world = map stored_doc [sample_tender]
           \<and> (\<forall>t \<in> set [sample_tender]. Tender_ok t)"
    by (simp add: sample_world_def sample_tender_ok)
  have c: "Tender.customer sample_tender = ''Acme''"
    by (simp add: sample_tender_def new_tender_def sample_create_def)
  from list_applies_nonempty_filters [of sample_world None None "Some ''Acme''" _ _ "[sample_tender]"] w
  have 1: "get_tenders sample_world None None (Some ''Acme'')
             = (Inr (take 1000 (filter (selected None None (Some ''Acme'')) [sample_tender])),
                sample_world)"
    by blast
  from list_applies_nonempty_filters [of sample_world None None "Some ''Globex''" _ _ "[sample_tender]"] w
  have 2: "get_tenders sample_world None None (Some ''Globex'')
             = (Inr (take 1000 (filter (selected None None (Some ''Globex'')) [sample_tender])),
                sample_world)"
    by blast
  from 1 2 c show ?thesis
    by (simp add: selected_def)
qed

section \<open>Identifiers\<close>

lemma Tender_init_uuid:
  "uuid4_src (snd (Tender_init w d)) = uuid4_src w"
  "uuid4_calls w \<le> uuid4_calls (snd (Tender_init w d))"
  by (simp_all add: Tender_init_world)

lemma Tender_init_all_uuid:
  "uuid4_src (snd (Tender_init_all w ds)) = uuid4_src w
   \<and> uuid4_calls w \<le> uuid4_calls (snd (Tender_init_all w ds))"
proof (induction ds arbitrary: w)
  case Nil
  then show ?case by simp
next
  case (Cons d ds)
  obtain r w1 where i: "Tender_init w d = (r, w1)" by (cases "Tender_init w d")
  with Tender_init_uuid [of w d] have 1: "uuid4_src w1 = uuid4_src w" "uuid4_calls w \<le> uuid4_calls w1"
    by simp_all
  from Cons.IH [of w1] 1 i show ?case
    by (cases r) (auto split: prod.splits sum.splits)
qed

lemma create_tender_cases:
  "create_tender w p =
     (case Tender_init w ((TenderCreate_dict p)
              (''start_date'' \<mapsto> VStr (isoformat_date (TenderCreate.start_date p)),
               ''expiry_date'' \<mapsto> VStr (isoformat_date (TenderCreate.expiry_date p)),
               ''due_date'' \<mapsto> VStr (isoformat_datetime (TenderCreate.due_date p)))) of
        (Inl e, w') \<Rightarrow> (Inl e, w')
      | (Inr t, w') \<Rightarrow> (Inr t, w'\<lparr>tenders := tenders w' @ [stored_doc t]\<rparr>))"
  by (simp add: create_tender_def create_dict_iso Tender_dict_iso insert_one_def
      split: prod.splits sum.splits)

lemma create_tender_effect:
  "uuid4_src (snd (create_tender w p)) = uuid4_src w
   \<and> uuid4_calls (snd (create_tender w p)) = Suc (uuid4_calls w)
   \<and> (ids (snd (create_tender w p)) = ids w
        \<or> ids (snd (create_tender w p)) = ids w @ [Some (VStr (uuid4_src w (uuid4_calls w)))])"
proof -
  let ?D = "(TenderCreate_dict p)
              (''start_date'' \<mapsto> VStr (isoformat_date (TenderCreate.start_date p)),
               ''expiry_date'' \<mapsto> VStr (isoformat_date (TenderCreate.expiry_date p)),
               ''due_date'' \<mapsto> VStr (isoformat_datetime (TenderCreate.due_date p)))"
  have n: "?D ''id'' = None" by (simp add: TenderCreate_dict_def)
  obtain r w1 where i: "Tender_init w ?D = (r, w1)" by (cases "Tender_init w ?D")
  from Tender_init_world [of w ?D] i n have w1: "uuid4_src w1 = uuid4_src w"
    "uuid4_calls w1 = Suc (uuid4_calls w)" "tenders w1 = tenders w"
    by simp_all
  show ?thesis
  proof (cases r)
    case (Inl e)
    with i w1 show ?thesis by (simp add: create_tender_cases ids_def)
  next
    case (Inr t)
    with i Tender_init_Inr(1) [of w ?D t w1] n have "id' t = uuid4_src w (uuid4_calls w)"
      by simp
    then have "stored_doc t ''id'' = Some (VStr (uuid4_src w (uuid4_calls w)))"
      by (simp add: stored_doc_def Tender_dict_def)
    with i Inr w1 show ?thesis by (simp add: create_tender_cases ids_def)
  qed
qed

lemma delete_one_ids:
  "map (\<lambda>d. d ''id'') (snd (delete_one (by_id i) ds))
     = remove1 (Some (VStr i)) (map (\<lambda>d. d ''id'') ds)"
  by (induction ds) (auto simp: matches_by_id case_prod_beta)

lemma update_one_ids:
  "u ''id'' = None \<Longrightarrow> map (\<lambda>d. d ''id'') (snd (update_one q u ds)) = map (\<lambda>d. d ''id'') ds"
  by (induction ds) (auto simp: case_prod_beta map_add_lookup)

lemma serve_uuid:
  "uuid4_src (serve r w) = uuid4_src w \<and> uuid4_calls w \<le> uuid4_calls (serve r w)"
proof (cases r)
  case (POST_tenders body)
  then show ?thesis
    using create_tender_effect by (simp add: post_tenders_def split: option.splits)
next
  case (GET_tenders st pr cu)
  then show ?thesis
    using Tender_init_all_uuid by (simp add: get_tenders_def Let_def split: option.splits)
next
  case (GET_tender i)
  then show ?thesis
    using Tender_init_uuid by (simp add: get_tender_def split: option.splits)
next
  case (PUT_tender i body)
  then show ?thesis
    by (simp add: put_tender_def update_tender_def update_data_of_eq utcnow_def Let_def
        case_prod_beta Tender_init_world split: option.splits)
next
  case (DELETE_tender i)
  then show ?thesis by (simp add: delete_tender_def case_prod_beta Let_def)
next
  case GET_customers
  then show ?thesis by (simp add: get_customers_def)
next
  case GET_sales_reps
  then show ?thesis by (simp add: get_sales_reps_def)
qed

lemma serve_ids:
  "ids (serve (PUT_tender i body) w) = ids w"
  "ids (serve (GET_tender i) w) = ids w"
  "ids (serve (GET_tenders st pr cu) w) = ids w"
  "ids (serve GET_customers w) = ids w"
  "ids (serve GET_sales_reps w) = ids w"
  "ids (serve (DELETE_tender i) w) = remove1 (Some (VStr i)) (ids w)"
  "ids (serve (POST_tenders body) w) = ids w
   \<or> ids (serve (POST_tenders body) w) = ids w @ [Some (VStr (uuid4_src w (uuid4_calls w)))]"
proof -
  show "ids (serve (PUT_tender i body) w) = ids w"
    by (simp add: ids_def put_tender_tenders update_one_ids set_fields_simps split: option.splits)
  show "ids (serve (GET_tender i) w) = ids w"
    by (simp add: ids_def get_tender_def split: option.splits)
  show "ids (serve (GET_tenders st pr cu) w) = ids w"
    by (simp add: ids_def get_tenders_tenders)
  show "ids (serve GET_customers w) = ids w" by (simp add: ids_def get_customers_def)
  show "ids (serve GET_sales_reps w) = ids w" by (simp add: ids_def get_sales_reps_def)
  show "ids (serve (DELETE_tender i) w) = remove1 (Some (VStr i)) (ids w)"
    by (simp add: ids_def delete_tender_def case_prod_beta Let_def delete_one_ids)
  show "ids (serve (POST_tenders body) w) = ids w
   \<or> ids (serve (POST_tenders body) w) = ids w @ [Some (VStr (uuid4_src w (uuid4_calls w)))]"
    using create_tender_effect by (simp add: post_tenders_def ids_def split: option.splits)
qed


lemma post_tenders_effect:
  "ids (serve (POST_tenders body) w) = ids w
   \<or> ids (serve (POST_tenders body) w) = ids w @ [Some (VStr (uuid4_src w (uuid4_calls w)))]
     \<and> uuid4_calls w < uuid4_calls (serve (POST_tenders body) w)"
  using create_tender_effect by (auto simp: post_tenders_def ids_def split: option.splits)

lemma unique_ids_step:
  assumes "unique_ids w" "uuid4_src w' = uuid4_src w" "uuid4_calls w \<le> uuid4_calls w'"
    and "ids w' = ids w \<or> (\<exists>x. ids w' = remove1 x (ids w))
         \<or> ids w' = ids w @ [Some (VStr (uuid4_src w (uuid4_calls w)))]
           \<and> uuid4_calls w < uuid4_calls w'"
  shows "unique_ids w'"
proof -
  from assms(1) have inj: "inj (uuid4_src w)" and dist: "distinct (ids w)"
    and old: "\<forall>x \<in> set (ids w). \<exists>n < uuid4_calls w. x = Some (VStr (uuid4_src w n))"
    by (simp_all add: unique_ids_def)
  from old assms(3) have old': "\<forall>x \<in> set (ids w). \<exists>n < uuid4_calls w'. x = Some (VStr (uuid4_src w n))"
    by (meson less_le_trans)
  from assms(4) consider "ids w' = ids w" | x where "ids w' = remove1 x (ids w)"
    | "ids w' = ids w @ [Some (VStr (uuid4_src w (uuid4_calls w)))]"
      "uuid4_calls w < uuid4_calls w'" by blast
  then show ?thesis
  proof cases
    case 1
    with inj dist old' assms(2) show ?thesis by (simp add: unique_ids_def)
  next
    case 2
    have "set (remove1 x (ids w)) \<subseteq> set (ids w)" by (rule set_remove1_subset)
    with 2 inj dist old' assms(2) show ?thesis
      by (auto simp: unique_ids_def)
  next
    case 3
    have "Some (VStr (uuid4_src w (uuid4_calls w))) \<notin> set (ids w)"
    proof
      assume "Some (VStr (uuid4_src w (uuid4_calls w))) \<in> set (ids w)"
      with old obtain n where "n < uuid4_calls w" "uuid4_src w (uuid4_calls w) = uuid4_src w n"
        by auto
      with inj show False by (auto dest: injD)
    qed
    with 3 inj dist old' assms(2) show ?thesis
      by (auto simp: unique_ids_def)
  qed
qed

lemma unique_ids_serve:
  assumes "unique_ids w"
  shows "unique_ids (serve r w)"
proof (rule unique_ids_step [OF assms])
  show "uuid4_src (serve r w) = uuid4_src w" "uuid4_calls w \<le> uuid4_calls (serve r w)"
    using serve_uuid [of r w] by simp_all
  show "ids (serve r w) = ids w \<or> (\<exists>x. ids (serve r w) = remove1 x (ids w))
         \<or> ids (serve r w) = ids w @ [Some (VStr (uuid4_src w (uuid4_calls w)))]
           \<and> uuid4_calls w < uuid4_calls (serve r w)"
  proof (cases r)
    case (POST_tenders body)
    with post_tenders_effect [of body w] show ?thesis by blast
  next
    case (DELETE_tender i)
    with serve_ids(6) [of i w] show ?thesis by blast
  qed (simp_all only: serve_ids simp_thms)
qed

lemma unique_ids_run: "unique_ids w \<Longrightarrow> unique_ids (run rs w)"
  by (induction rs arbitrary: w) (simp_all add: unique_ids_serve)

lemma update_tender_ids: "ids (snd (update_tender w i u)) = ids w"
  by (simp add: ids_def update_tender_tenders update_one_ids set_fields_simps)

text \<open>
  C8. No request changes the id of a stored record: an update, through the handler or
  through the endpoint with any body (a body's \<open>id\<close> key is not a field of the update
  payload), and every read leave the ids of the collection as they are, in place; a delete
  removes one id; a create leaves them or appends the generated one. The ids of the
  collection stay unique over every sequence of requests, for a generator that never
  produces the same value twice.
\<close>

theorem ids_immutable_and_unique:
  "ids (snd (update_tender w tender_id tender_update)) = ids w
   \<and> ids (serve (PUT_tender tender_id body) w) = ids w
   \<and> ids (serve (GET_tender tender_id) w) = ids w
   \<and> ids (serve (GET_tenders status' priority' customer') w) = ids w
   \<and> ids (serve GET_customers w) = ids w
   \<and> ids (serve GET_sales_reps w) = ids w
   \<and> ids (serve (DELETE_tender tender_id) w) = remove1 (Some (VStr tender_id)) (ids w)
   \<and> (ids (serve (POST_tenders body) w) = ids w
       \<or> ids (serve (POST_tenders body) w) = ids w @ [Some (VStr (uuid4_src w (uuid4_calls w)))])
   \<and> (unique_ids w \<longrightarrow> unique_ids (run rs w))"
  by (intro conjI impI update_tender_ids serve_ids unique_ids_run)


lemma sample_body_validate: "TenderCreate_validate w sample_body = Some sample_create"
proof -
  have ok: "date_ok (TenderCreate.start_date sample_create)"
    "date_ok (TenderCreate.expiry_date sample_create)"
    "datetime_ok (TenderCreate.due_date sample_create)"
    using sample_create_ok by (simp_all add: TenderCreate_ok_def)
  have "TenderCreate_validate w sample_body =
          Some \<lparr>TenderCreate.item = ''Pumps'', customer = ''Acme'',
                 tender_name = ''Harbour pumps'', status = OFFER,
                 start_date = TenderCreate.start_date sample_create,
                 expiry_date = TenderCreate.expiry_date sample_create,
                 due_date = TenderCreate.due_date sample_create,
                 deal_value = 0x408F400000000000, priority = MEDIUM,
                 assigned_sales_rep = ''Dana''\<rparr>"
    by (rule TenderCreate_validate_eq)
       (simp_all add: with_default_def required_def sample_body_dates
          parse_date_isoformat_date parse_datetime_isoformat_datetime ok,
        simp_all add: sample_body_def PriorityLevel_of_def PriorityLevel_members_def)
  then show ?thesis by (simp add: sample_create_def)
qed

lemma post_sample_ids:
  "ids (serve (POST_tenders sample_body) w) = ids w @ [Some (VStr (uuid4_src w (uuid4_calls w)))]
   \<and> uuid4_calls (serve (POST_tenders sample_body) w) = Suc (uuid4_calls w)
   \<and> uuid4_src (serve (POST_tenders sample_body) w) = uuid4_src w"
  by (simp add: post_tenders_def sample_body_validate create_tender_eq [OF sample_create_ok]
      ids_def stored_doc_def Tender_dict_def new_tender_def)

lemma fresh_world_unique: "unique_ids fresh_world"
proof -
  have "inj counting_uuids"
  proof (rule injI)
    fix m n assume "counting_uuids m = counting_uuids n"
    then have "length (counting_uuids m) = length (counting_uuids n)" by simp
    then show "m = n" by (simp add: counting_uuids_def)
  qed
  then show ?thesis by (simp add: unique_ids_def fresh_world_def ids_def)
qed

theorem ids_immutable_and_unique_witness:
  "ids (run [POST_tenders sample_body, POST_tenders sample_body] fresh_world)
     = [Some (VStr ''a''), Some (VStr ''aa'')]
   \<and> ids (run [POST_tenders sample_body, POST_tenders sample_body,
                PUT_tender ''a'' (null_body(''id'' \<mapsto> VStr ''aa''))] fresh_world)
     = [Some (VStr ''a''), Some (VStr ''aa'')]
   \<and> unique_ids (run [POST_tenders sample_body, POST_tenders sample_body,
                PUT_tender ''a'' (null_body(''id'' \<mapsto> VStr ''aa'')), DELETE_tender ''a'',
                POST_tenders sample_body] fresh_world)"
proof -
  let ?w1 = "serve (POST_tenders sample_body) fresh_world"
  let ?w2 = "serve (POST_tenders sample_body) ?w1"
  have 1: "ids ?w1 = [Some (VStr ''a'')]" "uuid4_calls ?w1 = Suc 0" "uuid4_src ?w1 = counting_uuids"
    using post_sample_ids [of fresh_world]
    by (simp_all add: fresh_world_def ids_def counting_uuids_def del: serve.simps)
  have 2: "ids ?w2 = [Some (VStr ''a''), Some (VStr ''aa'')]"
    using post_sample_ids [of ?w1] by (simp add: 1 counting_uuids_def del: serve.simps)
  note T = ids_immutable_and_unique
  from T [of ?w2 "''a''" _ "null_body(''id'' \<mapsto> VStr ''aa'')"]
  have 3: "ids (serve (PUT_tender ''a'' (null_body(''id'' \<mapsto> VStr ''aa''))) ?w2) = ids ?w2"
    by blast
  from T [of fresh_world _ _ _ _ _ _ "[POST_tenders sample_body, POST_tenders sample_body,
                PUT_tender ''a'' (null_body(''id'' \<mapsto> VStr ''aa'')), DELETE_tender ''a'',
                POST_tenders sample_body]"] fresh_world_unique
  have 4: "unique_ids (run [POST_tenders sample_body, POST_tenders sample_body,
                PUT_tender ''a'' (null_body(''id'' \<mapsto> VStr ''aa'')), DELETE_tender ''a'',
                POST_tenders sample_body] fresh_world)"
    by blast
  have r2: "run [POST_tenders sample_body, POST_tenders sample_body] fresh_world = ?w2"
    by (simp only: run.simps)
  have r3: "run [POST_tenders sample_body, POST_tenders sample_body,
                PUT_tender ''a'' (null_body(''id'' \<mapsto> VStr ''aa''))] fresh_world
             = serve (PUT_tender ''a'' (null_body(''id'' \<mapsto> VStr ''aa''))) ?w2"
    by (simp only: run.simps)
  show ?thesis
    unfolding r2 r3 3 2 using 4 by (simp only: simp_thms)
qed

end
